theory Spec2Isabelle
  imports Complex_Main "HOL-Library.Word" "HOL-Library.Signed_Division" "HOL-Library.AList"
    "HOL-Library.Log_Nat"
begin

section \<open>Conventions of the embedding\<close>

text \<open>
  The Go package \<^verbatim>\<open>pricing\<close> is embedded function by function.

  \<^item> A Go \<^verbatim>\<open>string\<close> is a \<^typ>\<open>string\<close> (a list of bytes).
  \<^item> A finite \<^verbatim>\<open>float64\<close> is the \<^typ>\<open>real\<close> number it stands for, and Go compares
    finite values as reals. Every arithmetic operation on \<^verbatim>\<open>float64\<close> is the exact
    operation followed by the rounding \<open>fl\<close> to the nearest \<^verbatim>\<open>float64\<close>, and every
    conversion of an integer or of a constant to \<^verbatim>\<open>float64\<close> is \<open>fl\<close> as well (the
    conversion of a \<^verbatim>\<open>uint32\<close> is exact). The values that \<^verbatim>\<open>strconv.ParseFloat\<close>, the
    JSON decoder and \<^verbatim>\<open>MustFloat64\<close> deliver are taken to be finite. Where a division
    may be a division by zero, in \<^verbatim>\<open>CalculateBlockRates\<close>, the results are values of the
    type \<open>float64\<close> below, which has the infinities and NaN. Negative zero is not
    distinguished from zero, and a sum or product of reals beyond the largest
    \<^verbatim>\<open>float64\<close> stays a real. Every operation is rounded by itself, as on the amd64
    target; where a Go compiler fuses a product with the sum that follows, one of the
    roundings is left out.
  \<^item> An \<^verbatim>\<open>int64\<close> is a \<^typ>\<open>64 word\<close> read with \<^const>\<open>sint\<close>; \<^verbatim>\<open>uint32\<close> is a
    \<^typ>\<open>32 word\<close>. Arithmetic on them wraps as in Go.
  \<^item> A Go \<^verbatim>\<open>map[string]float64\<close> is an association list with one entry per key,
    updated with \<^const>\<open>AList.update\<close> and read with \<^const>\<open>map_of\<close>.
  \<^item> A function returning \<^verbatim>\<open>(T, error)\<close> returns \<open>error + T\<close>, \<^const>\<open>Inl\<close> the error.
  \<^item> Functions of the Go standard library whose results the package only passes on
    (\<^verbatim>\<open>strconv.ParseFloat\<close>, \<^verbatim>\<open>fmt.Sprintf\<close> of a float, the JSON decoder) are the
    fields of a record \<open>lib\<close> handed to the functions that call them.
\<close>

subsection \<open>Errors\<close>

text \<open>
  One constructor for each error the package builds or passes on. Errors of the standard
  library carry no payload; the wrapping errors (\<^verbatim>\<open>%w\<close>, \<^verbatim>\<open>%v\<close> of an error) carry
  the error they wrap. \<open>Panic\<close> is a run-time panic and \<open>Fatal\<close> the exit of
  \<^verbatim>\<open>log.Fatalf\<close>.
\<close>

datatype error =
    InvalidGPUMapping string          \<comment> \<open>\<^verbatim>\<open>invalid GPU mapping: %s\<close>\<close>
  | InvalidGPUPrice string            \<comment> \<open>\<^verbatim>\<open>invalid GPU price for %s: %v\<close>\<close>
  | CacheMissingOrExpired             \<comment> \<open>\<^verbatim>\<open>cache file does not exist or is expired\<close>\<close>
  | ReadFileError                     \<comment> \<open>error of \<^verbatim>\<open>ioutil.ReadFile\<close>\<close>
  | ParseFloatError                   \<comment> \<open>error of \<^verbatim>\<open>strconv.ParseFloat\<close>\<close>
  | HttpGetError                      \<comment> \<open>error of \<^verbatim>\<open>http.Get\<close>\<close>
  | JSONDecodeError                   \<comment> \<open>error of the JSON decoder\<close>
  | WriteFileError                    \<comment> \<open>error of \<^verbatim>\<open>ioutil.WriteFile\<close>\<close>
  | OpenError                         \<comment> \<open>error of \<^verbatim>\<open>os.Open\<close>\<close>
  | ScannerError                      \<comment> \<open>\<^verbatim>\<open>bufio.ErrTooLong\<close> of the line scanner\<close>
  | HTTPRequestError nat              \<comment> \<open>\<^verbatim>\<open>HTTP request error: %s\<close>\<close>
  | FetchingWhitelist error           \<comment> \<open>\<^verbatim>\<open>error fetching whitelist: %w\<close>\<close>
  | NotWhitelisted string             \<comment> \<open>\<^verbatim>\<open>%s is not whitelisted\<close>\<close>
  | OwnerNotSpecified                 \<comment> \<open>\<^verbatim>\<open>request owner is not specified\<close>\<close>
  | WhitelistCheckFailed error        \<comment> \<open>\<^verbatim>\<open>whitelist check failed: %v\<close>\<close>
  | ErrorGettingAKTPrice error        \<comment> \<open>\<^verbatim>\<open>error getting AKT price: %v\<close>\<close>
  | PriceInformationMissing           \<comment> \<open>\<^verbatim>\<open>price information is missing or incomplete\<close>\<close>
  | GroupSpecIsNil                    \<comment> \<open>\<^verbatim>\<open>GroupSpec is nil in the request\<close>\<close>
  | RateTooLow string string          \<comment> \<open>\<^verbatim>\<open>requested rate is too low. min expected %.*f%s\<close>\<close>
  | DenomNotSupported string          \<comment> \<open>\<^verbatim>\<open>denom is not supported: %s\<close>\<close>
  | Fatal error                       \<comment> \<open>\<^verbatim>\<open>log.Fatalf("Error parsing GPU mappings: %v", err)\<close>\<close>
  | Panic                             \<comment> \<open>nil dereference\<close>

subsection \<open>\<^verbatim>\<open>strings.Split\<close> with a one-byte separator\<close>

text \<open>
  \<^verbatim>\<open>strings.Split(s, sep)\<close> cuts \<open>s\<close> at every occurrence of \<open>sep\<close>; a string without
  the separator (the empty string too) gives the one-element list \<open>[s]\<close>. The package
  only splits at \<^verbatim>\<open>","\<close>, \<^verbatim>\<open>"="\<close> and \<^verbatim>\<open>"/"\<close>.
\<close>

fun Split :: "string \<Rightarrow> char \<Rightarrow> string list" where
  "Split [] sep = [ [] ]"
| "Split (c # cs) sep =
     (if c = sep then [] # Split cs sep
      else (case Split cs sep of
              [] \<Rightarrow> [ [c] ]
            | p # ps \<Rightarrow> (c # p) # ps))"

subsection \<open>\<^verbatim>\<open>float64\<close> arithmetic\<close>

text \<open>
  The rounding of a real number to the nearest \<^verbatim>\<open>float64\<close>, ties to the even
  significand (the rounding of Go's arithmetic and conversions). \<open>expo x\<close> is the
  exponent of the binade of \<open>x\<close>, at least \<open>-1022\<close> (below that the numbers are
  subnormal and equally spaced); \<open>ulp x\<close> is the spacing of the \<^verbatim>\<open>float64\<close> values
  there, 52 binary places below; \<open>fl x\<close> is the multiple of \<open>ulp x\<close> nearest to \<open>x\<close>.
\<close>

definition expo :: "real \<Rightarrow> int" where
  "expo x = max (bitlen \<lfloor>\<bar>x\<bar> * 2 ^ 1074\<rfloor> - 1075) (- 1022)"

definition ulp :: "real \<Rightarrow> real" where
  "ulp x = 2 powi (expo x - 52)"

definition roundHalfEven :: "real \<Rightarrow> int" where
  "roundHalfEven y =
     (let n = \<lfloor>y\<rfloor>; r = y - of_int n
      in if r < 1 / 2 then n
         else if r > 1 / 2 then n + 1
         else if even n then n else n + 1)"

definition fl :: "real \<Rightarrow> real" where
  "fl x = of_int (roundHalfEven (x / ulp x)) * ulp x"

text \<open>
  A \<^verbatim>\<open>float64\<close> that may be infinite or NaN. \<open>toFloat64\<close> rounds a real result, which
  overflows to an infinity from \<open>2 ^ 1024\<close> on. \<open>fmul a y\<close> and \<open>fdiv a y\<close> are Go's
  \<^verbatim>\<open>a * y\<close> and \<^verbatim>\<open>a / y\<close> for a finite \<open>y\<close>: a finite number other than zero divided by
  zero is an infinity, zero divided by zero is NaN.
\<close>

datatype float64 = Finite real | PosInf | NegInf | NaN

definition toFloat64 :: "real \<Rightarrow> float64" where
  "toFloat64 x =
     (let y = fl x
      in if y \<ge> 2 ^ 1024 then PosInf
         else if y \<le> - (2 ^ 1024) then NegInf
         else Finite y)"

definition fmul :: "float64 \<Rightarrow> real \<Rightarrow> float64" where
  "fmul a y =
     (case a of
        Finite x \<Rightarrow> toFloat64 (x * y)
      | PosInf \<Rightarrow> (if y = 0 then NaN else if y > 0 then PosInf else NegInf)
      | NegInf \<Rightarrow> (if y = 0 then NaN else if y > 0 then NegInf else PosInf)
      | NaN \<Rightarrow> NaN)"

definition fdiv :: "float64 \<Rightarrow> real \<Rightarrow> float64" where
  "fdiv a y =
     (case a of
        Finite x \<Rightarrow>
          (if y = 0 then (if x = 0 then NaN else if x > 0 then PosInf else NegInf)
           else toFloat64 (x / y))
      | PosInf \<Rightarrow> (if y < 0 then NegInf else PosInf)
      | NegInf \<Rightarrow> (if y < 0 then PosInf else NegInf)
      | NaN \<Rightarrow> NaN)"

section \<open>gpu.go\<close>

type_synonym gpu_mappings = "(string \<times> real) list"

subsection \<open>ParseGPUPriceMappings\<close>

text \<open>
  The loop \<^verbatim>\<open>for _, pair := range pairs\<close> of \<^verbatim>\<open>ParseGPUPriceMappings\<close>, with the map
  built so far as accumulator. \<open>pf\<close> is \<^verbatim>\<open>strconv.ParseFloat(_, 64)\<close>, \<^const>\<open>None\<close> when
  it returns an error.
\<close>

fun parsePairs :: "(string \<Rightarrow> real option) \<Rightarrow> string list \<Rightarrow> gpu_mappings \<Rightarrow> error + gpu_mappings" where
  "parsePairs pf [] gpuMappings = Inr gpuMappings"
| "parsePairs pf (pair # pairs) gpuMappings =
     (if pair = [] then parsePairs pf pairs gpuMappings
      else
        let kv = Split pair CHR ''='' in
        if length kv \<noteq> 2 then Inl (InvalidGPUMapping pair)
        else
          let key = kv ! 0 in
          (case pf (kv ! 1) of
             None \<Rightarrow> Inl (InvalidGPUPrice key)
           | Some val \<Rightarrow> parsePairs pf pairs (AList.update key val gpuMappings)))"

definition ParseGPUPriceMappings :: "(string \<Rightarrow> real option) \<Rightarrow> string \<Rightarrow> error + gpu_mappings" where
  "ParseGPUPriceMappings pf mappingStr =
     (if mappingStr = [] then Inr []
      else parsePairs pf (Split mappingStr CHR '','') [])"

text \<open>
  The claim's reading of a segment \<^emph>\<open>of the form key=number\<close>, written from its words and
  not from the code: the segment holds exactly one \<^verbatim>\<open>=\<close>, and what follows it parses
  as a float. The key is whatever precedes the \<^verbatim>\<open>=\<close>.
\<close>

definition is_key_eq_number :: "(string \<Rightarrow> real option) \<Rightarrow> string \<Rightarrow> bool" where
  "is_key_eq_number pf seg =
     (length (filter (\<lambda>c. c = CHR ''='') seg) = 1 \<and>
      pf (tl (dropWhile (\<lambda>c. c \<noteq> CHR ''='') seg)) \<noteq> None)"

subsection \<open>The request types\<close>

text \<open>
  The types of the deployment API that the package reads, with the fields it reads.
  A \<^verbatim>\<open>ResourceValue\<close> is kept as the \<^verbatim>\<open>int64\<close> that \<^verbatim>\<open>Val.Int64()\<close> returns (a
  quantity outside \<^verbatim>\<open>int64\<close> makes that call panic, and is not a value of the model);
  a pointer field that may be nil is an \<open>option\<close>. The amount of a price is the
  decimal \<^verbatim>\<open>sdk.Dec\<close> as a real number.
\<close>

record Attribute =
  Key :: string
  Value :: string

record CPU =
  cpu_Units :: "64 word"

record Memory =
  memory_Quantity :: "64 word"

record Storage =
  storage_Name :: string
  storage_Quantity :: "64 word"
  storage_Attributes :: "Attribute list"

record GPU =
  gpu_Units :: "64 word"
  gpu_Attributes :: "Attribute list"

datatype Endpoint_Kind = Endpoint_SHARED_HTTP | Endpoint_RANDOM_PORT | Endpoint_LEASED_IP

record Endpoint =
  Kind :: Endpoint_Kind

record Resources =
  res_CPU :: "CPU option"
  res_Memory :: "Memory option"
  res_Storage :: "Storage list"
  res_GPU :: "GPU option"
  res_Endpoints :: "Endpoint list"

record DecCoin =
  Denom :: string
  Amount :: real

record ResourceUnit =
  unit_Resources :: Resources
  Count :: "32 word"
  Price :: DecCoin

record GroupSpec =
  group_Resources :: "ResourceUnit list"

subsection \<open>MaxGPUPrice\<close>

text \<open>
  The loop \<^verbatim>\<open>for _, price := range gpuMappings\<close>; Go visits the entries of a map in an
  unspecified order, the model in the order of the association list.
\<close>

fun maxPriceLoop :: "gpu_mappings \<Rightarrow> real \<Rightarrow> real" where
  "maxPriceLoop [] maxPrice = maxPrice"
| "maxPriceLoop ((key, price) # entries) maxPrice =
     maxPriceLoop entries (if price > maxPrice then price else maxPrice)"

definition MaxGPUPrice :: "gpu_mappings \<Rightarrow> real" where
  "MaxGPUPrice gpuMappings = maxPriceLoop gpuMappings 100.0"

subsection \<open>CalculateTotalGPUPrice\<close>

text \<open>
  The inner loop \<^verbatim>\<open>for i, part := range parts\<close> over the pieces of one attribute key,
  \<open>scanPart\<close> being the \<^verbatim>\<open>switch\<close> of its body:
  \<open>rest\<close> holds \<^verbatim>\<open>parts[i+1:]\<close>, so \<^verbatim>\<open>i+1 < len(parts)\<close> is \<open>rest \<noteq> []\<close> and
  \<^verbatim>\<open>parts[i+1]\<close> is its head. The state is \<open>(model, vram, interfaceType)\<close>.
\<close>

definition scanPart :: "string \<Rightarrow> string list \<Rightarrow> string \<times> string \<times> string \<Rightarrow> string \<times> string \<times> string" where
  "scanPart part rest st =
     (case st of
        (model, vram, interfaceType) \<Rightarrow>
          if part = ''model'' then
            (case rest of [] \<Rightarrow> (model, vram, interfaceType) | nxt # _ \<Rightarrow> (nxt, vram, interfaceType))
          else if part = ''ram'' then
            (case rest of [] \<Rightarrow> (model, vram, interfaceType) | nxt # _ \<Rightarrow> (model, nxt, interfaceType))
          else if part = ''interface'' then
            (case rest of [] \<Rightarrow> (model, vram, interfaceType) | nxt # _ \<Rightarrow> (model, vram, nxt))
          else (model, vram, interfaceType))"

fun scanParts :: "string list \<Rightarrow> string \<times> string \<times> string \<Rightarrow> string \<times> string \<times> string" where
  "scanParts [] st = st"
| "scanParts (part # rest) st = scanParts rest (scanPart part rest st)"

text \<open>The outer loop \<^verbatim>\<open>for _, attr := range resourceUnit.Resources.GPU.Attributes\<close>.\<close>

fun scanAttributes :: "Attribute list \<Rightarrow> string \<times> string \<times> string \<Rightarrow> string \<times> string \<times> string" where
  "scanAttributes [] st = st"
| "scanAttributes (attr # attrs) st =
     scanAttributes attrs (scanParts (Split (Key attr) CHR ''/'') st)"

text \<open>
  The two-valued map read \<^verbatim>\<open>price, found := gpuMappings[gpuKey]\<close>: a missing key gives
  the zero value \<open>0\<close> and \<open>False\<close>.
\<close>

definition lookupPrice :: "gpu_mappings \<Rightarrow> string \<Rightarrow> real \<times> bool" where
  "lookupPrice gpuMappings gpuKey =
     (case map_of gpuMappings gpuKey of None \<Rightarrow> (0, False) | Some price \<Rightarrow> (price, True))"

text \<open>
  Lines 86 to 109 of \<^verbatim>\<open>gpu.go\<close>: the key is built, looked up, and the fallbacks are
  tried under the guard \<^verbatim>\<open>!found && interfaceType != ""\<close>. The result is the value of
  \<^verbatim>\<open>price\<close> after the block.
\<close>

definition resolvePrice :: "gpu_mappings \<Rightarrow> real \<Rightarrow> string \<Rightarrow> string \<Rightarrow> string \<Rightarrow> real" where
  "resolvePrice gpuMappings maxGPUPrice model vram interfaceType =
     (let gpuKey0 = model;
          gpuKey1 = (if vram \<noteq> [] then gpuKey0 @ ''.'' @ vram else gpuKey0);
          gpuKey2 = (if interfaceType \<noteq> [] then gpuKey1 @ ''.'' @ interfaceType else gpuKey1)
      in case lookupPrice gpuMappings gpuKey2 of
           (price, found) \<Rightarrow>
             if \<not> found \<and> interfaceType \<noteq> [] then
               (case lookupPrice gpuMappings (model @ ''.'' @ vram) of
                  (price1, found1) \<Rightarrow>
                    if \<not> found1 then
                      (case lookupPrice gpuMappings model of
                         (price2, found2) \<Rightarrow> if \<not> found2 then maxGPUPrice else price2)
                    else price1)
             else price)"

text \<open>
  The price of one resource unit that carries a GPU, \<^verbatim>\<open>count * gpuUnits * price\<close>: two
  \<^verbatim>\<open>float64\<close> products, of operands converted from \<^verbatim>\<open>uint32\<close> and \<^verbatim>\<open>int64\<close>.
\<close>

definition gpuUnitPrice :: "gpu_mappings \<Rightarrow> real \<Rightarrow> 32 word \<Rightarrow> GPU \<Rightarrow> real" where
  "gpuUnitPrice gpuMappings maxGPUPrice cnt g =
     (let count = real (unat cnt);
          gpuUnits = fl (real_of_int (sint (gpu_Units g)))
      in case scanAttributes (gpu_Attributes g) ([], [], []) of
           (model, vram, interfaceType) \<Rightarrow>
             fl (fl (count * gpuUnits)
                   * resolvePrice gpuMappings maxGPUPrice model vram interfaceType))"

text \<open>The loop \<^verbatim>\<open>for _, resourceUnit := range gSpec.Resources\<close>, accumulating the total.\<close>

fun gpuPriceLoop :: "ResourceUnit list \<Rightarrow> gpu_mappings \<Rightarrow> real \<Rightarrow> real \<Rightarrow> real" where
  "gpuPriceLoop [] gpuMappings maxGPUPrice totalGPUPrice = totalGPUPrice"
| "gpuPriceLoop (resourceUnit # units) gpuMappings maxGPUPrice totalGPUPrice =
     gpuPriceLoop units gpuMappings maxGPUPrice
       (case res_GPU (unit_Resources resourceUnit) of
          None \<Rightarrow> totalGPUPrice
        | Some g \<Rightarrow>
            fl (totalGPUPrice + gpuUnitPrice gpuMappings maxGPUPrice (Count resourceUnit) g))"

definition CalculateTotalGPUPrice :: "GroupSpec \<Rightarrow> gpu_mappings \<Rightarrow> real \<Rightarrow> real" where
  "CalculateTotalGPUPrice gSpec gpuMappings maxGPUPrice =
     gpuPriceLoop (group_Resources gSpec) gpuMappings maxGPUPrice 0.0"

section \<open>types.go\<close>

record ResourceRequests =
  CPURequested :: real
  MemoryRequested :: real
  EphemeralStorageRequested :: "64 word"
  HDDPersStorageRequested :: "64 word"
  SSDPersStorageRequested :: "64 word"
  NVMePersStorageRequested :: "64 word"
  IPsRequested :: "64 word"
  EndpointsRequested :: "64 word"

record PriceTargets =
  CPUTarget :: real
  MemoryTarget :: real
  HDEphemeralTarget :: real
  HDPersHDDTarget :: real
  HDPersSSDTarget :: real
  HDPersNVMETarget :: real
  EndpointTarget :: real
  IPTarget :: real
  GPUMappings :: gpu_mappings

record Request =
  Owner :: string
  GSpec :: "GroupSpec option"
  PricePrecision :: int

section \<open>The world outside the package\<close>

text \<open>
  What the package reads and writes besides its arguments: the environment variables,
  the files under \<^verbatim>\<open>/tmp\<close>, the answers of the HTTP servers and the standard output.

  A file is absent (\<open>NotExist\<close>: \<^verbatim>\<open>os.Stat\<close> fails and \<^verbatim>\<open>os.IsNotExist\<close> holds),
  or \<^verbatim>\<open>os.Stat\<close> fails for another reason (\<open>StatError\<close>), or it is there
  (\<open>File age data\<close>): \<open>age\<close> is \<^verbatim>\<open>time.Since(fileInfo.ModTime())\<close>, a
  \<^verbatim>\<open>time.Duration\<close> in nanoseconds, and \<open>data\<close> the bytes that reading the file gives,
  \<^const>\<open>None\<close> when reading fails.

  An HTTP request fails (\<open>GetFailed\<close>) or is answered with a status code and a body.
  \<open>requests\<close> records the URLs requested so far, the oldest first, and \<open>stdout\<close> the
  lines printed with \<^verbatim>\<open>fmt.Println\<close> and \<^verbatim>\<open>fmt.Printf\<close>, one constructor of \<open>printed\<close>
  for each print statement of the package. Lines written by \<^verbatim>\<open>log\<close> are left out.
\<close>

datatype fstate = NotExist | StatError | File int "string option"

datatype http_result = GetFailed | Response nat string

datatype printed =
    RequestDump                 \<comment> \<open>\<^verbatim>\<open>####Request: \<close> and the request\<close>
  | PrimaryFailed               \<comment> \<open>\<^verbatim>\<open>Primary API failed, trying fallback\<close>\<close>
  | SpecialRate string          \<comment> \<open>\<^verbatim>\<open>Special pricing rate per block (uakt): %s\<close>\<close>
  | PriceMissing                \<comment> \<open>\<^verbatim>\<open>Price information is missing or incomplete\<close>\<close>
  | TotalPerBlock string        \<comment> \<open>\<^verbatim>\<open>Total cost per block (uakt, formatted): %s\<close>\<close>
  | TotalUSD string             \<comment> \<open>\<^verbatim>\<open>Total cost in USD: %.2f/month\<close>\<close>

record world =
  environ :: "string \<Rightarrow> string option"
  files :: "string \<Rightarrow> fstate"
  unwritable :: "string \<Rightarrow> bool"
  http :: "string \<Rightarrow> http_result"
  requests :: "string list"
  stdout :: "printed list"

text \<open>
  The standard library as the package uses it. \<open>ParseFloat s\<close> is
  \<^verbatim>\<open>strconv.ParseFloat(s, 64)\<close>, \<^const>\<open>None\<close> for an error; \<open>FormatFloat p x\<close> is
  \<^verbatim>\<open>fmt.Sprintf("%.*f", p, x)\<close>, for infinities and NaN too; \<open>Decode body\<close> is what the JSON decoder makes of a
  response body, \<^const>\<open>None\<close> for an error.
\<close>

datatype json =
    JNull
  | JBool bool
  | JNumber real
  | JString string
  | JArray "json list"
  | JObject "(string \<times> json) list"

record lib =
  ParseFloat :: "string \<Rightarrow> real option"
  FormatFloat :: "int \<Rightarrow> float64 \<Rightarrow> string"
  Decode :: "string \<Rightarrow> json option"

definition Getenv :: "world \<Rightarrow> string \<Rightarrow> string" where
  "Getenv w name = (case environ w name of None \<Rightarrow> [] | Some v \<Rightarrow> v)"

definition println :: "printed \<Rightarrow> world \<Rightarrow> world" where
  "println line w = w\<lparr>stdout := stdout w @ [line]\<rparr>"

text \<open>
  \<^verbatim>\<open>http.Get(url)\<close>: the request is recorded and the server's answer returned.
\<close>

definition httpGet :: "world \<Rightarrow> string \<Rightarrow> http_result \<times> world" where
  "httpGet w url = (http w url, w\<lparr>requests := requests w @ [url]\<rparr>)"

text \<open>
  \<^verbatim>\<open>ioutil.WriteFile(name, data, 0644)\<close>: on success the file holds \<open>data\<close> and has just
  been modified.
\<close>

definition WriteFile :: "world \<Rightarrow> string \<Rightarrow> string \<Rightarrow> error option \<times> world" where
  "WriteFile w name content =
     (if unwritable w name then (Some WriteFileError, w)
      else (None, w\<lparr>files := (files w)(name := File 0 (Some content))\<rparr>))"

section \<open>cache.go\<close>

definition cacheFile :: string where
  "cacheFile = ''/tmp/aktprice.cache''"

definition primaryURL :: string where
  "primaryURL = ''https://api-osmosis.imperator.co/tokens/v2/price/AKT''"

definition fallbackURL :: string where
  "fallbackURL = ''https://api.coingecko.com/api/v3/simple/price?ids=akash-network&vs_currencies=usd''"

text \<open>\<^verbatim>\<open>time.Minute\<close>, in nanoseconds.\<close>

definition Minute :: int where
  "Minute = 60 * 1000000000"

subsection \<open>readCachedPrice\<close>

text \<open>
  When \<^verbatim>\<open>os.Stat\<close> fails for a reason other than absence, \<^verbatim>\<open>fileInfo\<close> is nil and
  \<^verbatim>\<open>fileInfo.ModTime()\<close> panics.
\<close>

definition readCachedPrice :: "lib \<Rightarrow> world \<Rightarrow> string \<Rightarrow> error + real" where
  "readCachedPrice l w file =
     (case files w file of
        NotExist \<Rightarrow> Inl CacheMissingOrExpired
      | StatError \<Rightarrow> Inl Panic
      | File age content \<Rightarrow>
          if age > 60 * Minute then Inl CacheMissingOrExpired
          else
            (case content of
               None \<Rightarrow> Inl ReadFileError
             | Some bytes \<Rightarrow>
                 (case ParseFloat l bytes of
                    None \<Rightarrow> Inl ParseFloatError
                  | Some price \<Rightarrow> Inr price)))"

subsection \<open>extractPrice\<close>

text \<open>
  A decoded JSON object is a Go map; where a key occurs twice the decoder keeps the last
  value. \<open>field\<close> is the map read \<^verbatim>\<open>v[name]\<close>, and the type assertions
  \<^verbatim>\<open>.(float64)\<close> and \<^verbatim>\<open>.(map[string]interface{})\<close> are the patterns \<open>JNumber\<close> and
  \<open>JObject\<close>.
\<close>

definition field :: "(string \<times> json) list \<Rightarrow> string \<Rightarrow> json option" where
  "field v name = map_of (rev v) name"

definition extractNested :: "(string \<times> json) list \<Rightarrow> real" where
  "extractNested v =
     (case field v ''akash-network'' of
        Some (JObject nested) \<Rightarrow>
          (case field nested ''usd'' of
             Some (JNumber price) \<Rightarrow> price
           | _ \<Rightarrow> 0)
      | _ \<Rightarrow> 0)"

definition extractPrice :: "json \<Rightarrow> real" where
  "extractPrice data =
     (case data of
        JObject v \<Rightarrow>
          (case field v ''price'' of
             Some (JNumber price) \<Rightarrow> price
           | _ \<Rightarrow> extractNested v)
      | _ \<Rightarrow> 0)"

subsection \<open>fetchPriceFromURL, fetchPriceFromAPI, cachePrice, GetAKTPrice\<close>

definition fetchPriceFromURL :: "lib \<Rightarrow> world \<Rightarrow> string \<Rightarrow> (error + real) \<times> world" where
  "fetchPriceFromURL l w url =
     (case httpGet w url of
        (GetFailed, w1) \<Rightarrow> (Inl HttpGetError, w1)
      | (Response status body, w1) \<Rightarrow>
          (case Decode l body of
             None \<Rightarrow> (Inl JSONDecodeError, w1)
           | Some data \<Rightarrow> (Inr (extractPrice data), w1)))"

definition fetchPriceFromAPI :: "lib \<Rightarrow> world \<Rightarrow> (error + real) \<times> world" where
  "fetchPriceFromAPI l w =
     (case fetchPriceFromURL l w primaryURL of
        (Inl err, w1) \<Rightarrow> fetchPriceFromURL l (println PrimaryFailed w1) fallbackURL
      | (Inr price, w1) \<Rightarrow> (Inr price, w1))"

text \<open>\<^verbatim>\<open>fmt.Sprintf("%f", price)\<close> formats with six digits after the point.\<close>

definition cachePrice :: "lib \<Rightarrow> world \<Rightarrow> string \<Rightarrow> real \<Rightarrow> error option \<times> world" where
  "cachePrice l w file price = WriteFile w file (FormatFloat l 6 (Finite price))"

text \<open>
  A panic inside \<^verbatim>\<open>readCachedPrice\<close> ends the program; any other error of it leads to
  the fetch.
\<close>

definition GetAKTPrice :: "lib \<Rightarrow> world \<Rightarrow> (error + real) \<times> world" where
  "GetAKTPrice l w =
     (case readCachedPrice l w cacheFile of
        Inr price \<Rightarrow> (Inr price, w)
      | Inl err0 \<Rightarrow>
          if err0 = Panic then (Inl Panic, w)
          else
            (case fetchPriceFromAPI l w of
               (Inl err, w1) \<Rightarrow> (Inl err, w1)
             | (Inr price, w1) \<Rightarrow>
                 (case cachePrice l w1 cacheFile price of
                    (Some err, w2) \<Rightarrow> (Inl err, w2)
                  | (None, w2) \<Rightarrow> (Inr price, w2))))"

section \<open>whitelist.go\<close>

subsection \<open>SpecialPricing\<close>

definition specialAccounts :: "(string \<times> bool) list" where
  "specialAccounts =
     [(''akash1fxa9ss3dg6nqyz8aluyaa6svypgprk5tw9fa4q'', True),
      (''akash1fhe3uk7d95vvr69pna7cxmwa8777as46uyxcz8'', True)]"

text \<open>Reading a \<^verbatim>\<open>map[string]bool\<close> at a missing key gives \<^verbatim>\<open>false\<close>.\<close>

definition SpecialPricing :: "string \<Rightarrow> bool" where
  "SpecialPricing owner =
     (case map_of specialAccounts owner of None \<Rightarrow> False | Some b \<Rightarrow> b)"

subsection \<open>CheckWhitelist\<close>

text \<open>\<^verbatim>\<open>strings.Trim(s, "\"")\<close> removes the double quotes at both ends.\<close>

definition Trim :: "string \<Rightarrow> char \<Rightarrow> string" where
  "Trim s c = rev (dropWhile (\<lambda>x. x = c) (rev (dropWhile (\<lambda>x. x = c) s)))"

text \<open>
  \<^verbatim>\<open>strings.TrimSpace\<close> removes the white space at both ends, white space being the
  characters for which \<^verbatim>\<open>unicode.IsSpace\<close> holds: tab, line feed, vertical tab, form
  feed, carriage return, space, U+0085, U+00A0, U+1680, U+2000 to U+200A, U+2028,
  U+2029, U+202F, U+205F and U+3000. A string is a list of bytes, so these are their
  UTF-8 encodings; bytes that are not the encoding of a character stop the trimming, as
  in Go. Each step removes one character, so as many steps as the string has bytes
  suffice.
\<close>

definition spaceRunes :: "string list" where
  "spaceRunes =
     [ [CHR 0x09], [CHR 0x0A], [CHR 0x0B], [CHR 0x0C], [CHR 0x0D], [CHR 0x20],
      [CHR 0xC2, CHR 0x85], [CHR 0xC2, CHR 0xA0],
      [CHR 0xE1, CHR 0x9A, CHR 0x80],
      [CHR 0xE2, CHR 0x80, CHR 0x80], [CHR 0xE2, CHR 0x80, CHR 0x81],
      [CHR 0xE2, CHR 0x80, CHR 0x82], [CHR 0xE2, CHR 0x80, CHR 0x83],
      [CHR 0xE2, CHR 0x80, CHR 0x84], [CHR 0xE2, CHR 0x80, CHR 0x85],
      [CHR 0xE2, CHR 0x80, CHR 0x86], [CHR 0xE2, CHR 0x80, CHR 0x87],
      [CHR 0xE2, CHR 0x80, CHR 0x88], [CHR 0xE2, CHR 0x80, CHR 0x89],
      [CHR 0xE2, CHR 0x80, CHR 0x8A],
      [CHR 0xE2, CHR 0x80, CHR 0xA8], [CHR 0xE2, CHR 0x80, CHR 0xA9],
      [CHR 0xE2, CHR 0x80, CHR 0xAF],
      [CHR 0xE2, CHR 0x81, CHR 0x9F],
      [CHR 0xE3, CHR 0x80, CHR 0x80]]"

definition dropSpaceLeft :: "string \<Rightarrow> string option" where
  "dropSpaceLeft s =
     (case find (\<lambda>q. take (length q) s = q) spaceRunes of
        None \<Rightarrow> None
      | Some q \<Rightarrow> Some (drop (length q) s))"

definition dropSpaceRight :: "string \<Rightarrow> string option" where
  "dropSpaceRight s =
     (case find (\<lambda>q. length q \<le> length s \<and> drop (length s - length q) s = q) spaceRunes of
        None \<Rightarrow> None
      | Some q \<Rightarrow> Some (take (length s - length q) s))"

primrec trimLeft :: "nat \<Rightarrow> string \<Rightarrow> string" where
  "trimLeft 0 s = s"
| "trimLeft (Suc n) s = (case dropSpaceLeft s of None \<Rightarrow> s | Some rest \<Rightarrow> trimLeft n rest)"

primrec trimRight :: "nat \<Rightarrow> string \<Rightarrow> string" where
  "trimRight 0 s = s"
| "trimRight (Suc n) s = (case dropSpaceRight s of None \<Rightarrow> s | Some rest \<Rightarrow> trimRight n rest)"

definition TrimSpace :: "string \<Rightarrow> string" where
  "TrimSpace s = (let t = trimLeft (length s) s in trimRight (length t) t)"

definition shouldFetchWhitelist :: "world \<Rightarrow> string \<Rightarrow> error + bool" where
  "shouldFetchWhitelist w whitelistFile =
     (case files w whitelistFile of
        NotExist \<Rightarrow> Inr True
      | StatError \<Rightarrow> Inl Panic
      | File age content \<Rightarrow> Inr (age > 10 * Minute))"

text \<open>A failure of \<^verbatim>\<open>ioutil.ReadAll\<close> on the response body is not modelled.\<close>

definition fetchWhitelist :: "world \<Rightarrow> string \<Rightarrow> string \<Rightarrow> error option \<times> world" where
  "fetchWhitelist w whitelistURL whitelistFile =
     (case httpGet w whitelistURL of
        (GetFailed, w1) \<Rightarrow> (Some HttpGetError, w1)
      | (Response status body, w1) \<Rightarrow>
          if status \<noteq> 200 then (Some (HTTPRequestError status), w1)
          else WriteFile w1 whitelistFile body)"

text \<open>
  The tokens of a \<^verbatim>\<open>bufio.Scanner\<close> with the default split function: the text is cut
  at every newline, a last piece that is empty is not a token, and one carriage return
  at the end of a token is dropped. A line of 65536 bytes or more does not fit the
  scanner's buffer: the scan stops there and \<^verbatim>\<open>scanner.Err()\<close> is not nil.
\<close>

definition scannerLines :: "string \<Rightarrow> string list" where
  "scannerLines content =
     (let pieces = Split content CHR 0x0A
      in if last pieces = [] then butlast pieces else pieces)"

definition dropCR :: "string \<Rightarrow> string" where
  "dropCR line = (if line \<noteq> [] \<and> last line = CHR 0x0D then butlast line else line)"

definition tooLong :: "string \<Rightarrow> bool" where
  "tooLong line = (length line \<ge> 65536)"

fun scanFor :: "string list \<Rightarrow> string \<Rightarrow> error option" where
  "scanFor [] owner = Some (NotWhitelisted owner)"
| "scanFor (line # lines) owner =
     (if tooLong line then Some ScannerError
      else if TrimSpace (dropCR line) = owner then None
      else scanFor lines owner)"

definition verifyInWhitelist :: "world \<Rightarrow> string \<Rightarrow> string \<Rightarrow> error option" where
  "verifyInWhitelist w whitelistFile owner =
     (case files w whitelistFile of
        File age (Some content) \<Rightarrow> scanFor (scannerLines content) owner
      | _ \<Rightarrow> Some OpenError)"

definition whitelistFile :: string where
  "whitelistFile = ''/tmp/price-script.whitelist''"

text \<open>
  \<^verbatim>\<open>CheckWhitelist\<close> verifies the environment variable \<^verbatim>\<open>AKASH_OWNER\<close>, not its
  argument.
\<close>

definition CheckWhitelist :: "world \<Rightarrow> string \<Rightarrow> error option \<times> world" where
  "CheckWhitelist w owner =
     (let whitelistURL = Trim (Getenv w ''WHITELIST_URL'') (CHR 0x22)
      in if whitelistURL = [] then (None, w)
         else
           (case shouldFetchWhitelist w whitelistFile of
              Inl err \<Rightarrow> (Some err, w)
            | Inr False \<Rightarrow> (verifyInWhitelist w whitelistFile (Getenv w ''AKASH_OWNER''), w)
            | Inr True \<Rightarrow>
                (case fetchWhitelist w whitelistURL whitelistFile of
                   (Some err, w1) \<Rightarrow> (Some (FetchingWhitelist err), w1)
                 | (None, w1) \<Rightarrow>
                     (verifyInWhitelist w1 whitelistFile (Getenv w1 ''AKASH_OWNER''), w1))))"

section \<open>pricing.go\<close>

definition DefaultCPUTarget :: real where "DefaultCPUTarget = 1.60"
definition DefaultMemoryTarget :: real where "DefaultMemoryTarget = 0.80"
definition DefaultHDEphemeralTarget :: real where "DefaultHDEphemeralTarget = 0.02"
definition DefaultHDPersHDDTarget :: real where "DefaultHDPersHDDTarget = 0.01"
definition DefaultHDPersSSDTarget :: real where "DefaultHDPersSSDTarget = 0.03"
definition DefaultHDPersNVMETarget :: real where "DefaultHDPersNVMETarget = 0.04"
definition DefaultEndpointTarget :: real where "DefaultEndpointTarget = 0.05"
definition DefaultIPTarget :: real where "DefaultIPTarget = 5.00"

text \<open>
  The constants are untyped Go constants, hence exact; where one is used as a
  \<^verbatim>\<open>float64\<close> it is rounded there.
\<close>

definition AverageBlockTimeSeconds :: real where "AverageBlockTimeSeconds = 6.117"
definition DaysPerMonth :: real where "DaysPerMonth = 30.437"
definition BlocksPerMonth :: real where
  "BlocksPerMonth = (60 / AverageBlockTimeSeconds) * 24 * 60 * DaysPerMonth"

subsection \<open>CalculateRequestedResources\<close>

text \<open>
  The loop \<^verbatim>\<open>for _, attr := range storage.Attributes\<close> with its \<^verbatim>\<open>break\<close>: the second
  argument is the value of \<^verbatim>\<open>storageClass\<close> before the loop.
\<close>

definition isClassKey :: "Attribute \<Rightarrow> bool" where
  "isClassKey attr = (Key attr = ''class'')"

fun findClass :: "Attribute list \<Rightarrow> string \<Rightarrow> string" where
  "findClass [] storageClass = storageClass"
| "findClass (attr # attrs) storageClass =
     (if isClassKey attr then Value attr else findClass attrs storageClass)"

text \<open>
  The body of \<^verbatim>\<open>for _, storage := range resourceUnit.Resources.Storage\<close>. Go's \<^verbatim>\<open>/\<close> on
  \<^verbatim>\<open>int64\<close> truncates toward zero (\<open>sdiv\<close>), and \<^verbatim>\<open>int64(resourceUnit.Count)\<close>
  extends the \<^verbatim>\<open>uint32\<close> with zeros (\<^const>\<open>ucast\<close>).
\<close>

definition storageGBOf :: "64 word \<Rightarrow> 64 word" where
  "storageGBOf storageBytes = word_of_int (sint storageBytes sdiv (1024 * 1024 * 1024))"

definition addStorage :: "32 word \<Rightarrow> Storage \<Rightarrow> ResourceRequests \<Rightarrow> ResourceRequests" where
  "addStorage cnt storage result =
     (let storageClass = findClass (storage_Attributes storage) (storage_Name storage);
          storageBytes = storage_Quantity storage;
          storageGB = storageGBOf storageBytes
      in if storageClass = ''ephemeral'' \<or> storageClass = ''default'' then
           result\<lparr>EphemeralStorageRequested := EphemeralStorageRequested result + storageGB * ucast cnt\<rparr>
         else if storageClass = ''beta1'' then
           result\<lparr>HDDPersStorageRequested := HDDPersStorageRequested result + storageGB * ucast cnt\<rparr>
         else if storageClass = ''beta2'' then
           result\<lparr>SSDPersStorageRequested := SSDPersStorageRequested result + storageGB * ucast cnt\<rparr>
         else if storageClass = ''beta3'' then
           result\<lparr>NVMePersStorageRequested := NVMePersStorageRequested result + storageGB * ucast cnt\<rparr>
         else result)"

fun storageLoop :: "32 word \<Rightarrow> Storage list \<Rightarrow> ResourceRequests \<Rightarrow> ResourceRequests" where
  "storageLoop cnt [] result = result"
| "storageLoop cnt (storage # storages) result = storageLoop cnt storages (addStorage cnt storage result)"

text \<open>The body of \<^verbatim>\<open>for _, endpoint := range resourceUnit.Resources.Endpoints\<close>.\<close>

definition addEndpoint :: "32 word \<Rightarrow> Endpoint \<Rightarrow> ResourceRequests \<Rightarrow> ResourceRequests" where
  "addEndpoint cnt endpoint result =
     (let result1 = result\<lparr>EndpointsRequested := EndpointsRequested result + ucast cnt\<rparr>
      in if Kind endpoint = Endpoint_LEASED_IP then
           result1\<lparr>IPsRequested := IPsRequested result1 + ucast cnt\<rparr>
         else result1)"

fun endpointLoop :: "32 word \<Rightarrow> Endpoint list \<Rightarrow> ResourceRequests \<Rightarrow> ResourceRequests" where
  "endpointLoop cnt [] result = result"
| "endpointLoop cnt (endpoint # endpoints) result = endpointLoop cnt endpoints (addEndpoint cnt endpoint result)"

text \<open>
  The CPU and memory blocks of the body of the outer loop. Each of
  \<^verbatim>\<open>float64(cpuUnits)\<close>, the division, the product with \<^verbatim>\<open>float64(resourceUnit.Count)\<close>
  and the addition to the running total is rounded.
\<close>

definition addCPU :: "ResourceUnit \<Rightarrow> ResourceRequests \<Rightarrow> ResourceRequests" where
  "addCPU resourceUnit result =
     (case res_CPU (unit_Resources resourceUnit) of
        None \<Rightarrow> result
      | Some cpu \<Rightarrow>
          (let cpuUnits = cpu_Units cpu;
               cpuCores = fl (fl (real_of_int (sint cpuUnits)) / 1000.0)
           in result\<lparr>CPURequested :=
                fl (CPURequested result + fl (cpuCores * real (unat (Count resourceUnit))))\<rparr>))"

definition addMemory :: "ResourceUnit \<Rightarrow> ResourceRequests \<Rightarrow> ResourceRequests" where
  "addMemory resourceUnit result =
     (case res_Memory (unit_Resources resourceUnit) of
        None \<Rightarrow> result
      | Some mem \<Rightarrow>
          (let memoryBytes = memory_Quantity mem;
               memoryGB = fl (fl (real_of_int (sint memoryBytes)) / (1024.0 * 1024.0 * 1024.0))
           in result\<lparr>MemoryRequested :=
                fl (MemoryRequested result + fl (memoryGB * real (unat (Count resourceUnit))))\<rparr>))"

definition addResourceUnit :: "ResourceUnit \<Rightarrow> ResourceRequests \<Rightarrow> ResourceRequests" where
  "addResourceUnit resourceUnit result =
     endpointLoop (Count resourceUnit) (res_Endpoints (unit_Resources resourceUnit))
       (storageLoop (Count resourceUnit) (res_Storage (unit_Resources resourceUnit))
          (addMemory resourceUnit (addCPU resourceUnit result)))"

fun resourceLoop :: "ResourceUnit list \<Rightarrow> ResourceRequests \<Rightarrow> ResourceRequests" where
  "resourceLoop [] result = result"
| "resourceLoop (resourceUnit # units) result = resourceLoop units (addResourceUnit resourceUnit result)"

text \<open>\<^verbatim>\<open>var result ResourceRequests\<close>: every field is zero.\<close>

definition zeroResourceRequests :: ResourceRequests where
  "zeroResourceRequests =
     \<lparr>CPURequested = 0, MemoryRequested = 0, EphemeralStorageRequested = 0,
      HDDPersStorageRequested = 0, SSDPersStorageRequested = 0, NVMePersStorageRequested = 0,
      IPsRequested = 0, EndpointsRequested = 0\<rparr>"

definition CalculateRequestedResources :: "GroupSpec \<Rightarrow> ResourceRequests" where
  "CalculateRequestedResources gSpec = resourceLoop (group_Resources gSpec) zeroResourceRequests"

subsection \<open>GetEnvFloat and SetPriceTargets\<close>

definition GetEnvFloat :: "lib \<Rightarrow> world \<Rightarrow> string \<Rightarrow> real \<Rightarrow> real" where
  "GetEnvFloat l w envVar defaultValue =
     (case environ w envVar of
        None \<Rightarrow> defaultValue
      | Some val \<Rightarrow>
          (case ParseFloat l val of
             None \<Rightarrow> defaultValue
           | Some floatVal \<Rightarrow> floatVal))"

definition SetPriceTargets :: "lib \<Rightarrow> world \<Rightarrow> error + PriceTargets" where
  "SetPriceTargets l w =
     (let gpuMappingsStr = Getenv w ''PRICE_TARGET_GPU_MAPPINGS''
      in case ParseGPUPriceMappings (ParseFloat l) gpuMappingsStr of
           Inl err \<Rightarrow> Inl (Fatal err)
         | Inr gpuMappings \<Rightarrow>
             Inr \<lparr>CPUTarget = GetEnvFloat l w ''PRICE_TARGET_CPU'' (fl DefaultCPUTarget),
                  MemoryTarget = GetEnvFloat l w ''PRICE_TARGET_MEMORY'' (fl DefaultMemoryTarget),
                  HDEphemeralTarget = GetEnvFloat l w ''PRICE_TARGET_HD_EPHEMERAL'' (fl DefaultHDEphemeralTarget),
                  HDPersHDDTarget = GetEnvFloat l w ''PRICE_TARGET_HD_PERS_HDD'' (fl DefaultHDPersHDDTarget),
                  HDPersSSDTarget = GetEnvFloat l w ''PRICE_TARGET_HD_PERS_SSD'' (fl DefaultHDPersSSDTarget),
                  HDPersNVMETarget = GetEnvFloat l w ''PRICE_TARGET_HD_PERS_NVME'' (fl DefaultHDPersNVMETarget),
                  EndpointTarget = GetEnvFloat l w ''PRICE_TARGET_ENDPOINT'' (fl DefaultEndpointTarget),
                  IPTarget = GetEnvFloat l w ''PRICE_TARGET_IP'' (fl DefaultIPTarget),
                  GPUMappings = gpuMappings\<rparr>)"

subsection \<open>CalculateTotalCostUsdTarget and CalculateBlockRates\<close>

text \<open>
  Each cost is a rounded product, with the \<^verbatim>\<open>int64\<close> totals converted to \<^verbatim>\<open>float64\<close>,
  and each \<^verbatim>\<open>totalCostUsdTarget += ...\<close> a rounded sum, starting from zero.
\<close>

definition CalculateTotalCostUsdTarget :: "ResourceRequests \<Rightarrow> PriceTargets \<Rightarrow> real" where
  "CalculateTotalCostUsdTarget resourceRequests priceTargets =
     (let cpuCost = fl (CPURequested resourceRequests * CPUTarget priceTargets);
          total1 = fl (0 + cpuCost);
          memoryCost = fl (MemoryRequested resourceRequests * MemoryTarget priceTargets);
          total2 = fl (total1 + memoryCost);
          ephemeralStorageCost =
            fl (fl (real_of_int (sint (EphemeralStorageRequested resourceRequests)))
                  * HDEphemeralTarget priceTargets);
          total3 = fl (total2 + ephemeralStorageCost);
          hddPersStorageCost =
            fl (fl (real_of_int (sint (HDDPersStorageRequested resourceRequests)))
                  * HDPersHDDTarget priceTargets);
          total4 = fl (total3 + hddPersStorageCost);
          ssdPersStorageCost =
            fl (fl (real_of_int (sint (SSDPersStorageRequested resourceRequests)))
                  * HDPersSSDTarget priceTargets);
          total5 = fl (total4 + ssdPersStorageCost);
          nvmePersStorageCost =
            fl (fl (real_of_int (sint (NVMePersStorageRequested resourceRequests)))
                  * HDPersNVMETarget priceTargets);
          total6 = fl (total5 + nvmePersStorageCost);
          endpointCost =
            fl (fl (real_of_int (sint (EndpointsRequested resourceRequests)))
                  * EndpointTarget priceTargets);
          total7 = fl (total6 + endpointCost);
          ipCost =
            fl (fl (real_of_int (sint (IPsRequested resourceRequests))) * IPTarget priceTargets);
          total8 = fl (total7 + ipCost)
      in total8)"

text \<open>
  The operations are those of \<^verbatim>\<open>float64\<close>: when \<^verbatim>\<open>usdPerAkt\<close> is zero the rate in
  uakt is an infinity or NaN, and it is formatted as such. \<^verbatim>\<open>BlocksPerMonth\<close> is rounded
  to \<^verbatim>\<open>float64\<close> where it is used; it is not zero.
\<close>

definition CalculateBlockRates :: "lib \<Rightarrow> real \<Rightarrow> real \<Rightarrow> int \<Rightarrow> float64 \<times> float64 \<times> string" where
  "CalculateBlockRates l totalCostUsdTarget usdPerAkt precision =
     (let totalCostAktTarget = fdiv (Finite totalCostUsdTarget) usdPerAkt;
          totalCostUaktTarget = fmul totalCostAktTarget 1000000;
          ratePerBlockUakt = fdiv totalCostUaktTarget (fl BlocksPerMonth);
          ratePerBlockUsd = fdiv (Finite totalCostUsdTarget) (fl BlocksPerMonth);
          totalCostUaktStr = FormatFloat l 16 ratePerBlockUakt @ ''uakt''
      in (ratePerBlockUakt, ratePerBlockUsd, totalCostUaktStr))"

subsection \<open>HandleDenomLogic\<close>

text \<open>
  \<open>amount\<close> is the ceiling as the \<^verbatim>\<open>float64\<close> that \<^verbatim>\<open>amount.MustFloat64()\<close> returns, and
  the two rates are finite. The product \<^verbatim>\<open>ratePerBlockUsd * 1000000\<close> is a \<^verbatim>\<open>float64\<close>
  product, hence rounded.
\<close>

definition usdcDenom1 :: string where
  "usdcDenom1 = ''ibc/12C6A0C374171B595A0A9E18B83FA09D295FB1F2D8C6DAA3AC28683471752D84''"

definition usdcDenom2 :: string where
  "usdcDenom2 = ''ibc/170C677610AC31DF0904FFE09CD3B5C657492170E7E52372E48756B71E56F2F1''"

definition HandleDenomLogic :: "lib \<Rightarrow> string \<Rightarrow> real \<Rightarrow> real \<Rightarrow> int \<Rightarrow> real \<Rightarrow> error + string" where
  "HandleDenomLogic l denom ratePerBlockUakt ratePerBlockUsd precision amount =
     (if denom = ''uakt'' then
        (if ratePerBlockUakt > amount then
           Inl (RateTooLow (FormatFloat l precision (Finite ratePerBlockUakt)) denom)
         else Inr (FormatFloat l precision (Finite ratePerBlockUakt)))
      else if denom = usdcDenom1 \<or> denom = usdcDenom2 then
        (let ratePerBlockUsdNormalized = fl (ratePerBlockUsd * 1000000)
         in if ratePerBlockUsdNormalized > amount then
              Inl (RateTooLow (FormatFloat l precision (Finite ratePerBlockUsdNormalized)) denom)
            else Inr (FormatFloat l precision (Finite ratePerBlockUsdNormalized)))
      else Inl (DenomNotSupported denom))"

subsection \<open>RequestToBidPrice\<close>

text \<open>
  The price of the first resource unit, read before any check; without a group
  specification or without resources \<^verbatim>\<open>denom\<close> stays empty and \<^verbatim>\<open>amount\<close> is never read
  (the test \<^verbatim>\<open>denom == "" || amount.IsZero()\<close> stops at its first half).
\<close>

definition requestPrice :: "Request \<Rightarrow> string \<times> real" where
  "requestPrice request =
     (case GSpec request of
        None \<Rightarrow> ([], 0)
      | Some gSpec \<Rightarrow>
          (case group_Resources gSpec of
             [] \<Rightarrow> ([], 0)
           | resourceUnit # _ \<Rightarrow> (Denom (Price resourceUnit), Amount (Price resourceUnit))))"

text \<open>
  A panic is not an error value: it ends the program and is not wrapped by the callers
  (\<open>Panic\<close> is passed on as it is).

  Lines 389 to 408: the pricing proper. The function never calls
  \<^verbatim>\<open>HandleDenomLogic\<close>; \<^verbatim>\<open>denom\<close> and \<^verbatim>\<open>amount\<close> are not read again after the test for
  missing price information. The test \<^verbatim>\<open>err != nil\<close> of line 398 reads the error of
  \<^verbatim>\<open>GetAKTPrice\<close>, which is nil at that point, so its branch is never taken.
\<close>

definition priceRequest :: "lib \<Rightarrow> world \<Rightarrow> GroupSpec \<Rightarrow> real \<Rightarrow> int \<Rightarrow> error option \<times> world" where
  "priceRequest l w gSpec usdPerAkt precision =
     (case SetPriceTargets l w of
        Inl err \<Rightarrow> (Some err, w)
      | Inr priceTargets \<Rightarrow>
          (let maxGPUPrice = MaxGPUPrice (GPUMappings priceTargets);
               totalGPUPrice = CalculateTotalGPUPrice gSpec (GPUMappings priceTargets) maxGPUPrice;
               resourceRequests = CalculateRequestedResources gSpec;
               totalCostUsdTarget =
                 fl (CalculateTotalCostUsdTarget resourceRequests priceTargets + totalGPUPrice)
           in case CalculateBlockRates l totalCostUsdTarget usdPerAkt precision of
                (ratePerBlockUakt, ratePerBlockUsd, finalRateStr) \<Rightarrow>
                  (None, println (TotalUSD (FormatFloat l 2 (Finite totalCostUsdTarget)))
                           (println (TotalPerBlock finalRateStr) w))))"

definition RequestToBidPrice :: "lib \<Rightarrow> world \<Rightarrow> Request \<Rightarrow> error option \<times> world" where
  "RequestToBidPrice l w request =
     (let w0 = println RequestDump w;
          owner = Owner request
      in if owner = [] then (Some OwnerNotSpecified, w0)
         else
           (case requestPrice request of
              (denom, amount) \<Rightarrow>
                if SpecialPricing owner then (None, println (SpecialRate ''1.00'') w0)
                else
                  (case CheckWhitelist w0 owner of
                     (Some err, w1) \<Rightarrow>
                       (Some (if err = Panic then Panic else WhitelistCheckFailed err), w1)
                   | (None, w1) \<Rightarrow>
                       (case GetAKTPrice l w1 of
                          (Inl err, w2) \<Rightarrow>
                            (Some (if err = Panic then Panic else ErrorGettingAKTPrice err), w2)
                        | (Inr usdPerAkt, w2) \<Rightarrow>
                            if denom = [] \<or> amount = 0 then
                              (Some PriceInformationMissing, println PriceMissing w2)
                            else
                              (let precision =
                                     (if PricePrecision request = 0 then 6 else PricePrecision request)
                               in case GSpec request of
                                    None \<Rightarrow> (Some GroupSpecIsNil, w2)
                                  | Some gSpec \<Rightarrow> priceRequest l w2 gSpec usdPerAkt precision)))))"

section \<open>The storage totals in the words of the specification\<close>

text \<open>
  Written from the specification, not from the code, to be compared with
  \<^verbatim>\<open>CalculateRequestedResources\<close>. The class of a storage entry is the value of its
  first attribute with key \<^verbatim>\<open>class\<close> when there is one, and the entry's name otherwise.
  An entry of a unit stands for its byte size divided by \<open>2 ^ 30\<close>, truncated toward
  zero, times the unit's repetition count, in \<^verbatim>\<open>int64\<close> arithmetic. The total of a
  list of classes is the sum of that over the entries of those classes, over all
  units; an entry of no listed class adds nothing.
\<close>

definition resolvedClass :: "Storage \<Rightarrow> string" where
  "resolvedClass storage =
     (case find (\<lambda>attr. Key attr = ''class'') (storage_Attributes storage) of
        Some attr \<Rightarrow> Value attr
      | None \<Rightarrow> storage_Name storage)"

definition entryGB :: "32 word \<Rightarrow> Storage \<Rightarrow> 64 word" where
  "entryGB cnt storage = word_of_int (sint (storage_Quantity storage) sdiv 2 ^ 30) * ucast cnt"

definition unitStorage :: "string list \<Rightarrow> ResourceUnit \<Rightarrow> 64 word" where
  "unitStorage classes resourceUnit =
     sum_list (map (entryGB (Count resourceUnit))
       (filter (\<lambda>storage. resolvedClass storage \<in> set classes)
          (res_Storage (unit_Resources resourceUnit))))"

definition storageTotal :: "string list \<Rightarrow> GroupSpec \<Rightarrow> 64 word" where
  "storageTotal classes gSpec = sum_list (map (unitStorage classes) (group_Resources gSpec))"

text \<open>What one entry adds to the total of a list of classes.\<close>

definition contrib :: "string list \<Rightarrow> 32 word \<Rightarrow> Storage \<Rightarrow> 64 word" where
  "contrib classes cnt storage =
     (if resolvedClass storage \<in> set classes then entryGB cnt storage else 0)"

text \<open>
  The CPU total of the specification, in exact arithmetic: the sum over the units that
  carry a CPU of milli-cores times repetition count, divided by 1000. The
  specification takes all quantities to be non-negative; \<open>cpuNonNegative\<close> says so of
  the CPU quantity of a unit.
\<close>

definition milliCores :: "ResourceUnit \<Rightarrow> real" where
  "milliCores resourceUnit =
     (case res_CPU (unit_Resources resourceUnit) of
        None \<Rightarrow> 0
      | Some cpu \<Rightarrow> real_of_int (sint (cpu_Units cpu)) * real (unat (Count resourceUnit)))"

definition exactCPU :: "GroupSpec \<Rightarrow> real" where
  "exactCPU gSpec = sum_list (map milliCores (group_Resources gSpec)) / 1000"

definition cpuNonNegative :: "ResourceUnit \<Rightarrow> bool" where
  "cpuNonNegative resourceUnit =
     (case res_CPU (unit_Resources resourceUnit) of
        None \<Rightarrow> True
      | Some cpu \<Rightarrow> 0 \<le> sint (cpu_Units cpu))"

section \<open>Example inputs\<close>

text \<open>
  Concrete inputs at which the theorems below are instantiated. The example library
  parses the few decimal strings the examples use, formats every number as \<^verbatim>\<open>#\<close>, and
  decodes three response bodies.
\<close>

definition exampleParseFloat :: "string \<Rightarrow> real option" where
  "exampleParseFloat = map_of [(''280.00'', 280), (''200'', 200), (''2.50'', 2.5)]"

definition exampleDecode :: "string \<Rightarrow> json option" where
  "exampleDecode =
     map_of [(''{\"price\": 2.5}'', JObject [(''price'', JNumber 2.5)]),
             (''{\"akash-network\": {\"usd\": 2.5}}'',
                JObject [(''akash-network'', JObject [(''usd'', JNumber 2.5)])]),
             (''{\"message\": \"not found\"}'', JObject [(''message'', JString ''not found'')])]"

definition exampleLib :: lib where
  "exampleLib =
     \<lparr>ParseFloat = exampleParseFloat, FormatFloat = (\<lambda>precision x. ''#''), Decode = exampleDecode\<rparr>"

definition exampleMappings :: gpu_mappings where
  "exampleMappings = [(''a100.80gi.sxm4'', 280), (''a100.80gi'', 250), (''a100'', 200)]"

text \<open>A resource unit with one GPU whose only attribute has the given key.\<close>

definition gpuUnit :: "string \<Rightarrow> ResourceUnit" where
  "gpuUnit key =
     \<lparr>unit_Resources =
        \<lparr>res_CPU = None, res_Memory = None, res_Storage = [],
         res_GPU = Some \<lparr>gpu_Units = 1, gpu_Attributes = [\<lparr>Key = key, Value = ''true''\<rparr>]\<rparr>,
         res_Endpoints = []\<rparr>,
      Count = 1, Price = \<lparr>Denom = ''uakt'', Amount = 100000\<rparr>\<rparr>"

text \<open>
  A world with no environment variable set, no file, every file writable and no HTTP
  server reachable; the same world with a price cache of a given age holding
  \<^verbatim>\<open>2.50\<close>; and worlds whose servers answer.
\<close>

definition emptyWorld :: world where
  "emptyWorld =
     \<lparr>environ = (\<lambda>name. None), files = (\<lambda>name. NotExist), unwritable = (\<lambda>name. False),
      http = (\<lambda>url. GetFailed), requests = [], stdout = []\<rparr>"

definition cachedWorld :: "int \<Rightarrow> world" where
  "cachedWorld age = emptyWorld\<lparr>files := (files emptyWorld)(cacheFile := File age (Some ''2.50''))\<rparr>"

text \<open>The cache is 61 minutes old and the primary source answers with a price.\<close>

definition staleWorld :: world where
  "staleWorld =
     (cachedWorld (61 * Minute))
       \<lparr>http := (http emptyWorld)(primaryURL := Response 200 ''{\"price\": 2.5}'')\<rparr>"

text \<open>
  No cache; the primary source answers with a JSON object that has no price field,
  and the fallback source would answer with a price.
\<close>

definition primaryLacksPrice :: world where
  "primaryLacksPrice =
     emptyWorld\<lparr>http := (http emptyWorld)
       (primaryURL := Response 200 ''{\"message\": \"not found\"}'',
        fallbackURL := Response 200 ''{\"akash-network\": {\"usd\": 2.5}}'')\<rparr>"

text \<open>
  The request of the validation guide: 100 milli-cores, 256 MiB of memory, 256 MiB of
  storage named \<^verbatim>\<open>default\<close>, no GPU, one endpoint, a ceiling of 100000 in the given
  denomination, precision 18.
\<close>

definition exampleUnit :: "string \<Rightarrow> ResourceUnit" where
  "exampleUnit denom =
     \<lparr>unit_Resources =
        \<lparr>res_CPU = Some \<lparr>cpu_Units = 100\<rparr>,
         res_Memory = Some \<lparr>memory_Quantity = 268435456\<rparr>,
         res_Storage =
           [\<lparr>storage_Name = ''default'', storage_Quantity = 268435456, storage_Attributes = []\<rparr>],
         res_GPU = None,
         res_Endpoints = [\<lparr>Kind = Endpoint_SHARED_HTTP\<rparr>]\<rparr>,
      Count = 1, Price = \<lparr>Denom = denom, Amount = 100000\<rparr>\<rparr>"

text \<open>A resource unit that asks for CPU only: milli-cores and repetition count.\<close>

definition cpuUnit :: "64 word \<Rightarrow> 32 word \<Rightarrow> ResourceUnit" where
  "cpuUnit milli cnt =
     \<lparr>unit_Resources =
        \<lparr>res_CPU = Some \<lparr>cpu_Units = milli\<rparr>, res_Memory = None, res_Storage = [],
         res_GPU = None, res_Endpoints = []\<rparr>,
      Count = cnt, Price = \<lparr>Denom = ''uakt'', Amount = 100000\<rparr>\<rparr>"



definition exampleRequest :: "string \<Rightarrow> string \<Rightarrow> Request" where
  "exampleRequest owner denom =
     \<lparr>Owner = owner, GSpec = Some \<lparr>group_Resources = [exampleUnit denom]\<rparr>, PricePrecision = 18\<rparr>"

text \<open>A request with the denomination of its first resource unit replaced.\<close>

definition withDenom :: "string \<Rightarrow> Request \<Rightarrow> Request" where
  "withDenom denom request =
     request\<lparr>GSpec :=
       (case GSpec request of
          None \<Rightarrow> None
        | Some gSpec \<Rightarrow>
            Some (gSpec\<lparr>group_Resources :=
              (case group_Resources gSpec of
                 [] \<Rightarrow> []
               | resourceUnit # units \<Rightarrow>
                   resourceUnit\<lparr>Price := (Price resourceUnit)\<lparr>Denom := denom\<rparr>\<rparr> # units)\<rparr>))\<rparr>"

definition ordinaryOwner :: string where
  "ordinaryOwner = ''akash1wd9h4t4cuq6xcj5zkmdqkzq4y9zvh6s72t4z7a''"

section \<open>Properties of the rounding\<close>

lemma roundHalfEven_err: "\<bar>of_int (roundHalfEven y) - y\<bar> \<le> 1 / 2"
  unfolding roundHalfEven_def Let_def by (auto simp: abs_le_iff)

lemma roundHalfEven_nonneg: "0 \<le> y \<Longrightarrow> 0 \<le> roundHalfEven y"
  unfolding roundHalfEven_def Let_def by auto

lemma ulp_pos: "0 < ulp x"
  by (simp add: ulp_def)

text \<open>The rounded value is at most half a spacing away, and not negative for \<open>x \<ge> 0\<close>.\<close>

lemma fl_err_ulp: "\<bar>fl x - x\<bar> \<le> ulp x / 2"
proof -
  have "fl x - x = (of_int (roundHalfEven (x / ulp x)) - x / ulp x) * ulp x"
    using ulp_pos [of x] by (simp add: fl_def field_simps)
  then have "\<bar>fl x - x\<bar> = \<bar>of_int (roundHalfEven (x / ulp x)) - x / ulp x\<bar> * ulp x"
    using ulp_pos [of x] by (simp add: abs_mult)
  also have "\<dots> \<le> (1 / 2) * ulp x"
    by (rule mult_right_mono [OF roundHalfEven_err]) (simp add: ulp_pos less_imp_le)
  finally show ?thesis by simp
qed

lemma fl_nonneg: "0 \<le> x \<Longrightarrow> 0 \<le> fl x"
  using ulp_pos [of x] by (simp add: fl_def roundHalfEven_nonneg)

lemma fl_zero: "fl 0 = 0"
  by (simp add: fl_def roundHalfEven_def)

text \<open>
  The exponent of a number between \<open>2 powi k\<close> and \<open>2 powi (k + 1)\<close> is \<open>k\<close>, which
  gives the value of \<open>fl\<close> at a number whose binade is known.
\<close>

lemma bitlen_floor_scaled:
  fixes a :: real
  assumes "2 powi k \<le> a" and "a < 2 powi (k + 1)" and "0 \<le> k + int N"
  shows "bitlen \<lfloor>a * 2 ^ N\<rfloor> = k + int N + 1"
proof -
  define K where "K = nat (k + int N)"
  have K: "k + int N = int K" using assms(3) by (simp add: K_def)
  have p: "(2::real) powi k * 2 ^ N = 2 ^ K"
  proof -
    have "(2::real) powi k * 2 ^ N = 2 powi k * 2 powi (int N)" by simp
    also have "\<dots> = 2 powi (k + int N)" by (simp add: power_int_add)
    also have "\<dots> = 2 ^ K" by (simp only: K power_int_of_nat)
    finally show ?thesis .
  qed
  have p2: "(2::real) powi (k + 1) * 2 ^ N = 2 ^ Suc K"
  proof -
    have "(2::real) powi (k + 1) = 2 powi k * 2" by (simp add: power_int_add)
    then show ?thesis using p by simp
  qed
  have lo: "(2::real) ^ K \<le> a * 2 ^ N"
    using assms(1) p by (metis mult_right_mono zero_le_numeral zero_le_power)
  have hi: "a * 2 ^ N < (2::real) ^ Suc K"
    using assms(2) p2 by (metis mult_strict_right_mono zero_less_numeral zero_less_power)
  have "of_int ((2::int) ^ K) \<le> a * 2 ^ N" using lo by simp
  then have lo': "(2::int) ^ K \<le> \<lfloor>a * 2 ^ N\<rfloor>" by (simp only: le_floor_iff)
  have "a * 2 ^ N < of_int ((2::int) ^ Suc K)" using hi by simp
  then have hi': "\<lfloor>a * 2 ^ N\<rfloor> < (2::int) ^ Suc K" by (simp only: floor_less_iff)
  have "nat (int (Suc K)) - 1 = K" by simp
  then have ge: "int (Suc K) \<le> bitlen \<lfloor>a * 2 ^ N\<rfloor>"
    using lo' by (simp only: bitlen_ge_iff_power) simp
  have "nat (int (Suc K)) = Suc K" by simp
  then have le: "bitlen \<lfloor>a * 2 ^ N\<rfloor> \<le> int (Suc K)"
    using hi' by (simp only: bitlen_le_iff_power) simp
  from ge le K show ?thesis by simp
qed

lemma expo_eqI:
  assumes "2 powi k \<le> \<bar>x\<bar>" and "\<bar>x\<bar> < 2 powi (k + 1)" and "- 1022 \<le> k"
  shows "expo x = k"
proof -
  have "0 \<le> k + int 1074" using assms(3) by simp
  from bitlen_floor_scaled [OF assms(1) assms(2) this]
  have "bitlen \<lfloor>\<bar>x\<bar> * 2 ^ 1074\<rfloor> = k + 1075" by simp
  then show ?thesis using assms(3) unfolding expo_def by simp
qed

lemma fl_binade:
  assumes "2 powi k \<le> \<bar>x\<bar>" and "\<bar>x\<bar> < 2 powi (k + 1)" and "- 1022 \<le> k"
  shows "fl x = of_int (roundHalfEven (x / 2 powi (k - 52))) * 2 powi (k - 52)"
  by (simp add: fl_def ulp_def expo_eqI [OF assms])

text \<open>Values of the rounding that the examples need.\<close>

lemma fl_one: "fl 1 = 1"
  by (subst fl_binade [where k = 0]) (simp_all add: roundHalfEven_def)

lemma fl_200: "fl 200 = 200"
  by (subst fl_binade [where k = 7]) (simp_all add: roundHalfEven_def)

lemma fl_100000000100: "fl 100000000100 = 100000000100"
  by (subst fl_binade [where k = 36]) (simp_all add: roundHalfEven_def)

lemma fl_100000000_1: "fl (1000000001 / 10) = 6710886406710886 / 2 ^ 26"
  by (subst fl_binade [where k = 26]) (simp_all add: roundHalfEven_def)

lemma fl_grid_100000000_1: "fl (6710886406710886 / 2 ^ 26) = 6710886406710886 / 2 ^ 26"
  by (subst fl_binade [where k = 26]) (simp_all add: roundHalfEven_def)



text \<open>
  The error of one rounding: at most the relative error \<open>2 ^ -53\<close>, or in the
  subnormal range half the least spacing, which is below \<open>2 ^ -100\<close>.
\<close>

lemma scaled_lower:
  fixes a :: real
  assumes "0 < \<lfloor>a * 2 ^ N\<rfloor>"
  shows "2 powi (bitlen \<lfloor>a * 2 ^ N\<rfloor> - 1 - int N) \<le> a"
proof -
  define b where "b = bitlen \<lfloor>a * 2 ^ N\<rfloor>"
  have b1: "1 \<le> b"
    using assms bitlen_eq_zero_iff [of "\<lfloor>a * 2 ^ N\<rfloor>"] bitlen_nonneg [of "\<lfloor>a * 2 ^ N\<rfloor>"]
    by (simp add: b_def)
  have "2 ^ nat (b - 1) \<le> \<lfloor>a * 2 ^ N\<rfloor>"
    using bitlen_bounds [OF assms] by (simp add: b_def)
  then have "of_int (2 ^ nat (b - 1)) \<le> a * 2 ^ N"
    by (simp only: le_floor_iff [symmetric])
  then have lo: "(2::real) ^ nat (b - 1) \<le> a * 2 ^ N" by simp
  have "(2::real) powi ((b - 1 - int N) + int N) = 2 powi (b - 1 - int N) * 2 powi (int N)"
    by (rule power_int_add) simp
  then have "(2::real) powi (b - 1 - int N) * 2 ^ N = 2 powi (b - 1)" by simp
  also have "\<dots> = 2 ^ nat (b - 1)" using b1 by (simp add: power_int_def)
  finally have "(2::real) powi (b - 1 - int N) * 2 ^ N \<le> a * 2 ^ N" using lo by simp
  then show ?thesis by (simp add: b_def)
qed

lemma ulp_le:
  "ulp x \<le> \<bar>x\<bar> / 2 ^ 52 \<or> ulp x = 2 powi (- 1074)"
proof (cases "bitlen \<lfloor>\<bar>x\<bar> * 2 ^ 1074\<rfloor> - 1075 \<le> - 1022")
  case True
  then have "expo x = - 1022" by (simp add: expo_def)
  then show ?thesis by (simp add: ulp_def)
next
  case False
  define b where "b = bitlen \<lfloor>\<bar>x\<bar> * 2 ^ 1074\<rfloor>"
  from False have b: "53 < b" by (simp add: b_def)
  then have npos: "0 < \<lfloor>\<bar>x\<bar> * 2 ^ 1074\<rfloor>"
    using bitlen_eq_zero_iff [of "\<lfloor>\<bar>x\<bar> * 2 ^ 1074\<rfloor>"] by (simp add: b_def)
  have e: "expo x = b - 1075" using False by (simp add: expo_def b_def)
  have x: "(2::real) powi (b - 1075) \<le> \<bar>x\<bar>"
    using scaled_lower [OF npos] by (simp add: b_def)
  have split: "(2::real) powi ((b - 1075) + (- 52)) = 2 powi (b - 1075) * 2 powi (- 52)"
    by (rule power_int_add) simp
  have u: "ulp x = 2 powi (b - 1075) * 2 powi (- 52)"
    using split by (simp add: ulp_def e)
  have "2 powi (b - 1075) * 2 powi (- 52) \<le> \<bar>x\<bar> * (2::real) powi (- 52)"
    by (rule mult_right_mono [OF x]) simp
  with u show ?thesis by (simp add: power_int_minus field_simps)
qed

lemma fl_err: "\<bar>fl x - x\<bar> \<le> \<bar>x\<bar> / 2 ^ 53 + 1 / 2 ^ 100"
proof -
  have h: "ulp x / 2 \<le> \<bar>x\<bar> / 2 ^ 53 + 1 / 2 ^ 100"
    using ulp_le [of x]
  proof
    assume "ulp x \<le> \<bar>x\<bar> / 2 ^ 52"
    then have "ulp x / 2 \<le> \<bar>x\<bar> / 2 ^ 53" by simp
    then show ?thesis by (simp add: add_increasing2)
  next
    assume "ulp x = 2 powi (- 1074)"
    then have "ulp x / 2 \<le> 1 / 2 ^ 100" by (simp add: power_int_minus field_simps)
    then show ?thesis by (simp add: add_increasing)
  qed
  from fl_err_ulp [of x] h show ?thesis by linarith
qed

section \<open>Properties of \<^verbatim>\<open>strings.Split\<close>\<close>

lemma Split_nonempty: "Split s c \<noteq> []"
  by (induction s) (auto split: list.splits)

lemma length_Split: "length (Split s c) = Suc (length (filter (\<lambda>x. x = c) s))"
  by (induction s) (auto split: list.splits simp: Split_nonempty)

lemma Split_no_sep: "c \<notin> set s \<Longrightarrow> Split s c = [s]"
  by (induction s) auto

lemma Split_unfold:
  "Split s c = takeWhile (\<lambda>x. x \<noteq> c) s #
     (case dropWhile (\<lambda>x. x \<noteq> c) s of [] \<Rightarrow> [] | _ # r \<Rightarrow> Split r c)"
  by (induction s) (auto split: list.splits simp: Split_nonempty)

text \<open>When the split gives two pieces, the second is what follows the first separator.\<close>

lemma Split_two:
  assumes "length (Split s c) = 2"
  shows "Split s c ! 1 = tl (dropWhile (\<lambda>x. x \<noteq> c) s)"
proof (cases "dropWhile (\<lambda>x. x \<noteq> c) s")
  case Nil
  from Split_unfold [of s c] have "Split s c = [takeWhile (\<lambda>x. x \<noteq> c) s]"
    by (simp only: Nil list.case)
  with assms show ?thesis by simp
next
  case (Cons x r)
  from Split_unfold [of s c] have eq: "Split s c = takeWhile (\<lambda>x. x \<noteq> c) s # Split r c"
    by (simp only: Cons list.case)
  with assms have "length (Split r c) = 1" by simp
  then have "filter (\<lambda>x. x = c) r = []"
    by (simp add: length_Split)
  then have "c \<notin> set r"
    by (auto simp: filter_empty_conv)
  then have "Split r c = [r]" by (rule Split_no_sep)
  with eq Cons show ?thesis by simp
qed

section \<open>ParseGPUPriceMappings\<close>

text \<open>
  The two tests of the loop body, \<^verbatim>\<open>len(kv) != 2\<close> and the error of \<^verbatim>\<open>ParseFloat\<close>, pass
  together exactly for a segment of the form key=number.
\<close>

lemma pair_ok_iff:
  "(length (Split seg CHR ''='') = 2 \<and> pf (Split seg CHR ''='' ! 1) \<noteq> None)
     \<longleftrightarrow> is_key_eq_number pf seg"
  unfolding is_key_eq_number_def
  using Split_two [of seg "CHR ''=''"] by (auto simp: length_Split)

lemma parsePairs_error_iff:
  "isl (parsePairs pf segs m) \<longleftrightarrow>
     (\<exists>seg \<in> set segs. seg \<noteq> [] \<and> \<not> is_key_eq_number pf seg)"
proof (induction segs arbitrary: m)
  case Nil
  show ?case by simp
next
  case (Cons seg segs)
  show ?case
  proof (cases "seg = []")
    case True
    then show ?thesis using Cons.IH by simp
  next
    case False
    show ?thesis
    proof (cases "is_key_eq_number pf seg")
      case True
      then have ok: "length (Split seg CHR ''='') = 2" "pf (Split seg CHR ''='' ! 1) \<noteq> None"
        using pair_ok_iff [of seg pf] by auto
      then obtain v where v: "pf (Split seg CHR ''='' ! 1) = Some v" by auto
      show ?thesis using False True ok(1) v Cons.IH by (simp add: Let_def)
    next
      case bad: False
      then have "\<not> (length (Split seg CHR ''='') = 2 \<and> pf (Split seg CHR ''='' ! 1) \<noteq> None)"
        using pair_ok_iff [of seg pf] by simp
      then have "isl (parsePairs pf (seg # segs) m)"
        using False by (auto simp: Let_def split: option.splits)
      then show ?thesis using False bad by auto
    qed
  qed
qed

lemma parsePairs_skip_empty:
  "parsePairs pf segs m = parsePairs pf (filter (\<lambda>seg. seg \<noteq> []) segs) m"
proof (induction segs arbitrary: m)
  case Nil
  show ?case by simp
next
  case (Cons seg segs)
  show ?case
  proof (cases "seg = []")
    case True
    then show ?thesis using Cons.IH by simp
  next
    case False
    then show ?thesis using Cons.IH by (simp add: Let_def split: option.splits)
  qed
qed

text \<open>
  Claim C10. \<^verbatim>\<open>ParseGPUPriceMappings\<close> returns an error if and only if some non-empty
  comma-separated segment of the input is not of the form key=number, the number being
  what \<^verbatim>\<open>strconv.ParseFloat\<close> accepts (first conjunct); empty segments are skipped, the
  result being that of the loop run on the non-empty segments alone (second conjunct);
  and the empty input gives the empty mapping and no error (third conjunct). A segment
  is of the form key=number when it holds exactly one \<^verbatim>\<open>=\<close> and the text after it
  parses; the key is any text without \<^verbatim>\<open>=\<close>, the empty one included.
\<close>

theorem ParseGPUPriceMappings_error_iff:
  "(isl (ParseGPUPriceMappings pf mappingStr) \<longleftrightarrow>
      (\<exists>seg \<in> set (Split mappingStr CHR '',''). seg \<noteq> [] \<and> \<not> is_key_eq_number pf seg)) \<and>
   ParseGPUPriceMappings pf mappingStr =
      parsePairs pf (filter (\<lambda>seg. seg \<noteq> []) (Split mappingStr CHR '','')) [] \<and>
   ParseGPUPriceMappings pf [] = Inr []"
proof (cases "mappingStr = []")
  case True
  then show ?thesis by (simp add: ParseGPUPriceMappings_def)
next
  case False
  then have eq: "ParseGPUPriceMappings pf mappingStr = parsePairs pf (Split mappingStr CHR '','') []"
    by (simp add: ParseGPUPriceMappings_def)
  show ?thesis
    unfolding eq
    using parsePairs_error_iff [of pf "Split mappingStr CHR '',''" "[]"]
          parsePairs_skip_empty [of pf "Split mappingStr CHR '',''" "[]"]
    by (simp add: ParseGPUPriceMappings_def)
qed

text \<open>
  The theorem at two inputs: a list with an empty segment and the malformed segment
  \<^verbatim>\<open>t4=x\<close> is rejected, and a well-formed list with empty segments is accepted.
\<close>

theorem ParseGPUPriceMappings_error_iff_witness:
  "isl (ParseGPUPriceMappings exampleParseFloat ''a100=200,,t4=x'') \<and>
   \<not> isl (ParseGPUPriceMappings exampleParseFloat '',a100.80gi=280.00,,a100=200,'')"
  using ParseGPUPriceMappings_error_iff [of exampleParseFloat "''a100=200,,t4=x''"]
        ParseGPUPriceMappings_error_iff [of exampleParseFloat "'',a100.80gi=280.00,,a100=200,''"]
  by (simp add: is_key_eq_number_def exampleParseFloat_def)

section \<open>MaxGPUPrice\<close>

text \<open>
  Claim C5, as the code has it. \<^verbatim>\<open>MaxGPUPrice\<close> returns the greatest of the constant
  100.0 and the values of the mapping: the maximum of the mapping's values when one of
  them is at least 100.0, and 100.0 when the mapping is empty or all its values are
  below 100.0. The result depends on the set of values only, hence not on the order in
  which the map is visited.
\<close>

theorem MaxGPUPrice_floor: "MaxGPUPrice gpuMappings = Max (insert 100 (snd ` set gpuMappings))"
proof -
  have loop: "maxPriceLoop m x = Max (insert x (snd ` set m))" for m x
  proof (induction m arbitrary: x)
    case Nil
    show ?case by simp
  next
    case (Cons e m)
    obtain k p where e: "e = (k, p)" by (cases e)
    have "maxPriceLoop (e # m) x = Max (insert (max x p) (snd ` set m))"
      using Cons.IH [of "if p > x then p else x"] e by (simp add: max_def)
    also have "\<dots> = Max (insert x (insert p (snd ` set m)))"
      by (cases "snd ` set m = {}") (simp_all add: max.assoc)
    finally show ?case using e by (simp add: insert_commute)
  qed
  show ?thesis
    unfolding MaxGPUPrice_def using loop [of gpuMappings 100] by simp
qed

text \<open>
  Claim C5 as stated fails: for the non-empty mapping \<^verbatim>\<open>t4=50\<close> the result is 100, not
  the maximum 50 of the mapping's values.
\<close>

theorem MaxGPUPrice_counterexample:
  "MaxGPUPrice [(''t4'', 50)] = 100 \<and> MaxGPUPrice [(''t4'', 50)] \<noteq> Max (snd ` set [(''t4'', 50 :: real)])"
  by (simp add: MaxGPUPrice_def)

section \<open>CalculateTotalGPUPrice\<close>

text \<open>
  What the lookup block computes. Without an interface the guard
  \<^verbatim>\<open>!found && interfaceType != ""\<close> is false whatever the first lookup found: the price
  is the one found under the key built from model and vram, and the zero value of the
  map read when that key is absent. With an interface the three keys are tried in turn
  and the default price is the last resort.
\<close>

lemma resolvePrice_no_interface:
  "resolvePrice gpuMappings maxGPUPrice model vram [] =
     (case map_of gpuMappings (if vram \<noteq> [] then model @ ''.'' @ vram else model) of
        None \<Rightarrow> 0
      | Some price \<Rightarrow> price)"
  by (simp add: resolvePrice_def lookupPrice_def split: option.splits)

lemma resolvePrice_interface:
  assumes "interfaceType \<noteq> []" and "vram \<noteq> []"
  shows "resolvePrice gpuMappings maxGPUPrice model vram interfaceType =
     (case map_of gpuMappings (model @ ''.'' @ vram @ ''.'' @ interfaceType) of
        Some price \<Rightarrow> price
      | None \<Rightarrow>
          (case map_of gpuMappings (model @ ''.'' @ vram) of
             Some price \<Rightarrow> price
           | None \<Rightarrow>
               (case map_of gpuMappings model of
                  Some price \<Rightarrow> price
                | None \<Rightarrow> maxGPUPrice)))"
  using assms by (simp add: resolvePrice_def lookupPrice_def split: option.splits)

text \<open>
  Claim C1 fails on the code. With the mapping of the specification
  (\<^verbatim>\<open>a100.80gi.sxm4=280, a100.80gi=250, a100=200\<close>) and a GPU that carries model
  \<^verbatim>\<open>a100\<close> and vram \<^verbatim>\<open>40gi\<close> and no interface, the key \<^verbatim>\<open>a100.40gi\<close> is absent; the
  code does not go on to the key \<^verbatim>\<open>a100\<close> (200) nor to the default price (280) but
  prices the GPU at 0. The same unit with an interface is priced at 200 through the
  fallback.
\<close>

theorem CalculateTotalGPUPrice_no_fallback_without_interface:
  "CalculateTotalGPUPrice \<lparr>group_Resources = [gpuUnit ''vendor/nvidia/model/a100/ram/40gi'']\<rparr>
     exampleMappings (MaxGPUPrice exampleMappings) = 0 \<and>
   CalculateTotalGPUPrice \<lparr>group_Resources = [gpuUnit ''vendor/nvidia/model/a100/ram/40gi/interface/pcie'']\<rparr>
     exampleMappings (MaxGPUPrice exampleMappings) = 200"
  by (simp add: CalculateTotalGPUPrice_def gpuUnit_def gpuUnitPrice_def scanPart_def
        resolvePrice_def lookupPrice_def exampleMappings_def MaxGPUPrice_def
        fl_zero fl_one fl_200)

section \<open>CalculateRequestedResources: storage\<close>

lemma findClass_find:
  "findClass attrs name =
     (case find (\<lambda>attr. Key attr = ''class'') attrs of Some attr \<Rightarrow> Value attr | None \<Rightarrow> name)"
  by (induction attrs) (simp_all add: isClassKey_def)

lemma findClass_resolved:
  "findClass (storage_Attributes storage) (storage_Name storage) = resolvedClass storage"
  by (simp add: findClass_find resolvedClass_def)

lemma storageGBOf_entryGB: "storageGBOf (storage_Quantity storage) * ucast cnt = entryGB cnt storage"
  by (simp add: storageGBOf_def entryGB_def)

text \<open>One storage entry: each total grows by the entry's contribution to its classes.\<close>

lemma addStorage_fields:
  "EphemeralStorageRequested (addStorage cnt storage r) =
     EphemeralStorageRequested r + contrib [''ephemeral'', ''default''] cnt storage"
  "HDDPersStorageRequested (addStorage cnt storage r) =
     HDDPersStorageRequested r + contrib [''beta1''] cnt storage"
  "SSDPersStorageRequested (addStorage cnt storage r) =
     SSDPersStorageRequested r + contrib [''beta2''] cnt storage"
  "NVMePersStorageRequested (addStorage cnt storage r) =
     NVMePersStorageRequested r + contrib [''beta3''] cnt storage"
  by (simp_all add: addStorage_def Let_def findClass_resolved storageGBOf_entryGB contrib_def)

text \<open>An entry of an unrecognized class leaves the whole result as it was.\<close>

lemma addStorage_unrecognized:
  "resolvedClass storage \<notin> set [''ephemeral'', ''default'', ''beta1'', ''beta2'', ''beta3'']
     \<Longrightarrow> addStorage cnt storage r = r"
  by (simp add: addStorage_def Let_def findClass_resolved)

lemma sum_contrib:
  "sum_list (map (contrib classes cnt) sts) =
     sum_list (map (entryGB cnt) (filter (\<lambda>storage. resolvedClass storage \<in> set classes) sts))"
  by (induction sts) (simp_all add: contrib_def)

lemma storageLoop_fields:
  "EphemeralStorageRequested (storageLoop cnt sts r) =
     EphemeralStorageRequested r + sum_list (map (contrib [''ephemeral'', ''default''] cnt) sts)"
  "HDDPersStorageRequested (storageLoop cnt sts r) =
     HDDPersStorageRequested r + sum_list (map (contrib [''beta1''] cnt) sts)"
  "SSDPersStorageRequested (storageLoop cnt sts r) =
     SSDPersStorageRequested r + sum_list (map (contrib [''beta2''] cnt) sts)"
  "NVMePersStorageRequested (storageLoop cnt sts r) =
     NVMePersStorageRequested r + sum_list (map (contrib [''beta3''] cnt) sts)"
  by (induction sts arbitrary: r; simp add: addStorage_fields add.assoc)+

lemma endpointLoop_storage:
  "EphemeralStorageRequested (endpointLoop cnt es r) = EphemeralStorageRequested r"
  "HDDPersStorageRequested (endpointLoop cnt es r) = HDDPersStorageRequested r"
  "SSDPersStorageRequested (endpointLoop cnt es r) = SSDPersStorageRequested r"
  "NVMePersStorageRequested (endpointLoop cnt es r) = NVMePersStorageRequested r"
  by (induction es arbitrary: r; simp add: addEndpoint_def Let_def)+

lemma addCPU_storage:
  "EphemeralStorageRequested (addCPU u r) = EphemeralStorageRequested r"
  "HDDPersStorageRequested (addCPU u r) = HDDPersStorageRequested r"
  "SSDPersStorageRequested (addCPU u r) = SSDPersStorageRequested r"
  "NVMePersStorageRequested (addCPU u r) = NVMePersStorageRequested r"
  by (simp_all add: addCPU_def Let_def split: option.splits)

lemma addMemory_storage:
  "EphemeralStorageRequested (addMemory u r) = EphemeralStorageRequested r"
  "HDDPersStorageRequested (addMemory u r) = HDDPersStorageRequested r"
  "SSDPersStorageRequested (addMemory u r) = SSDPersStorageRequested r"
  "NVMePersStorageRequested (addMemory u r) = NVMePersStorageRequested r"
  by (simp_all add: addMemory_def Let_def split: option.splits)

lemma addResourceUnit_fields:
  "EphemeralStorageRequested (addResourceUnit u r) =
     EphemeralStorageRequested r + unitStorage [''ephemeral'', ''default''] u"
  "HDDPersStorageRequested (addResourceUnit u r) = HDDPersStorageRequested r + unitStorage [''beta1''] u"
  "SSDPersStorageRequested (addResourceUnit u r) = SSDPersStorageRequested r + unitStorage [''beta2''] u"
  "NVMePersStorageRequested (addResourceUnit u r) = NVMePersStorageRequested r + unitStorage [''beta3''] u"
  by (simp_all add: addResourceUnit_def endpointLoop_storage storageLoop_fields addCPU_storage
        addMemory_storage unitStorage_def sum_contrib)

lemma resourceLoop_fields:
  "EphemeralStorageRequested (resourceLoop us r) =
     EphemeralStorageRequested r + sum_list (map (unitStorage [''ephemeral'', ''default'']) us)"
  "HDDPersStorageRequested (resourceLoop us r) =
     HDDPersStorageRequested r + sum_list (map (unitStorage [''beta1'']) us)"
  "SSDPersStorageRequested (resourceLoop us r) =
     SSDPersStorageRequested r + sum_list (map (unitStorage [''beta2'']) us)"
  "NVMePersStorageRequested (resourceLoop us r) =
     NVMePersStorageRequested r + sum_list (map (unitStorage [''beta3'']) us)"
  by (induction us arbitrary: r; simp add: addResourceUnit_fields add.assoc)+

text \<open>
  Claim C7. The four storage totals of \<^verbatim>\<open>CalculateRequestedResources\<close> are the totals
  of the specification: every storage entry is counted under its resolved class (the
  \<^verbatim>\<open>class\<close> attribute when present, the entry's name otherwise), \<^verbatim>\<open>ephemeral\<close> and
  \<^verbatim>\<open>default\<close> in the ephemeral total, \<^verbatim>\<open>beta1\<close>, \<^verbatim>\<open>beta2\<close> and \<^verbatim>\<open>beta3\<close> in the HDD, SSD
  and NVMe totals; an entry of any other class is in none of the four sums; and a
  counted entry adds its byte size divided by \<open>2 ^ 30\<close>, truncated toward zero, times the
  repetition count of its unit. The function returns a value for every request: there
  is no error. The sums are sums of \<^verbatim>\<open>int64\<close>, as in the code.
\<close>

theorem CalculateRequestedResources_storage:
  "EphemeralStorageRequested (CalculateRequestedResources gSpec)
     = storageTotal [''ephemeral'', ''default''] gSpec \<and>
   HDDPersStorageRequested (CalculateRequestedResources gSpec) = storageTotal [''beta1''] gSpec \<and>
   SSDPersStorageRequested (CalculateRequestedResources gSpec) = storageTotal [''beta2''] gSpec \<and>
   NVMePersStorageRequested (CalculateRequestedResources gSpec) = storageTotal [''beta3''] gSpec"
  by (simp add: CalculateRequestedResources_def resourceLoop_fields zeroResourceRequests_def
        storageTotal_def)

text \<open>
  The division truncates toward zero: 3 GiB less one byte are 2, and a negative size of
  one byte more than 1 GiB is \<open>-1\<close>, where rounding down would give \<open>-2\<close>.
\<close>

lemma storageGBOf_truncates:
  "storageGBOf 3221225471 = 2 \<and> storageGBOf (- 1073741825) = - 1"
  by (simp add: storageGBOf_def signed_divide_int_def)

section \<open>CalculateRequestedResources: CPU\<close>

lemma CPURequested_storageLoop: "CPURequested (storageLoop cnt sts r) = CPURequested r"
  by (induction sts arbitrary: r) (simp_all add: addStorage_def Let_def)

lemma CPURequested_endpointLoop: "CPURequested (endpointLoop cnt es r) = CPURequested r"
  by (induction es arbitrary: r) (simp_all add: addEndpoint_def Let_def)

text \<open>
  One CPU-bearing unit, with \<open>m\<close> milli-cores, repetition count \<open>c\<close> and running
  total \<open>s\<close>: four roundings lie between the exact \<open>s + m * c / 1000\<close> and the new
  total. While that sum is at most 1001 they add up to less than \<open>1e-12\<close>.
\<close>

lemma cpu_step_err:
  fixes m c s :: real
  assumes m: "0 \<le> m" and c: "0 \<le> c" "c \<le> 2 ^ 32" and s: "0 \<le> s"
    and bound: "s + m * c / 1000 \<le> 1001"
  shows "\<bar>fl (s + fl (fl (fl m / 1000) * c)) - (s + m * c / 1000)\<bar> \<le> 1 / 10 ^ 12"
    and "0 \<le> fl (s + fl (fl (fl m / 1000) * c))"
proof -
  define a where "a = fl m"
  define q where "q = fl (a / 1000)"
  define p where "p = q * c"
  define t where "t = fl p"
  define e where "e = m * c / 1000"
  have a0: "0 \<le> a" unfolding a_def using m by (rule fl_nonneg)
  have q0: "0 \<le> q" unfolding q_def using a0 by (intro fl_nonneg) simp
  have p0: "0 \<le> p" unfolding p_def using q0 c(1) by simp
  have t0: "0 \<le> t" unfolding t_def using p0 by (rule fl_nonneg)
  have e0: "0 \<le> e" unfolding e_def using m c(1) by simp
  have ea: "\<bar>a - m\<bar> \<le> m / 2 ^ 53 + 1 / 2 ^ 100"
    unfolding a_def using fl_err [of m] m by simp
  have eq: "\<bar>q - a / 1000\<bar> \<le> (a / 1000) / 2 ^ 53 + 1 / 2 ^ 100"
    unfolding q_def using fl_err [of "a / 1000"] a0 by simp
  have d: "\<bar>q - m / 1000\<bar> \<le> 3 * (m / 1000) / 2 ^ 53 + 3 / 2 ^ 100"
    using ea eq m a0 by (simp add: abs_le_iff)
  have "p - e = c * (q - m / 1000)"
    unfolding p_def e_def by (simp add: algebra_simps)
  then have "\<bar>p - e\<bar> = c * \<bar>q - m / 1000\<bar>"
    using c(1) by (simp add: abs_mult)
  also have "\<dots> \<le> c * (3 * (m / 1000) / 2 ^ 53 + 3 / 2 ^ 100)"
    by (rule mult_left_mono [OF d c(1)])
  also have "\<dots> = 3 * e / 2 ^ 53 + c * (3 / 2 ^ 100)"
    unfolding e_def by (simp add: algebra_simps)
  also have "\<dots> \<le> 3 * e / 2 ^ 53 + 2 ^ 32 * (3 / 2 ^ 100)"
    using mult_right_mono [OF c(2), of "3 / 2 ^ 100"] by simp
  finally have ep: "\<bar>p - e\<bar> \<le> 3 * e / 2 ^ 53 + 2 ^ 32 * (3 / 2 ^ 100)" .
  have et: "\<bar>t - p\<bar> \<le> p / 2 ^ 53 + 1 / 2 ^ 100"
    unfolding t_def using fl_err [of p] p0 by simp
  define z where "z = s + t"
  define y where "y = fl z"
  have z0: "0 \<le> z" using s t0 by (simp add: z_def)
  have es: "\<bar>y - z\<bar> \<le> z / 2 ^ 53 + 1 / 2 ^ 100"
    unfolding y_def using fl_err [of z] z0 by simp
  have b: "s + e \<le> 1001" using bound by (simp add: e_def)
  have e1: "e \<le> 1001" using b s by simp
  have ep': "p - e \<le> 4 / 10 ^ 13" "e - p \<le> 4 / 10 ^ 13"
    using ep e1 e0 by (simp_all add: abs_le_iff)
  have p1: "p \<le> 1002" using ep'(1) e1 by simp
  have et': "t - p \<le> 2 / 10 ^ 13" "p - t \<le> 2 / 10 ^ 13"
    using et p1 p0 by (simp_all add: abs_le_iff)
  have z1: "z \<le> 1002" using et'(1) ep'(1) b by (simp add: z_def)
  have es': "y - z \<le> 2 / 10 ^ 13" "z - y \<le> 2 / 10 ^ 13"
    using es z1 z0 by (simp_all add: abs_le_iff)
  have hi: "y - (s + e) \<le> 1 / 10 ^ 12" and lo: "- (y - (s + e)) \<le> 1 / 10 ^ 12"
    using ep' et' es' by (simp_all add: z_def)
  have "\<bar>y - (s + e)\<bar> \<le> 1 / 10 ^ 12"
    using hi lo by (rule abs_leI)
  then have "\<bar>fl (s + t) - (s + e)\<bar> \<le> 1 / 10 ^ 12"
    by (simp add: y_def z_def)
  then show "\<bar>fl (s + fl (fl (fl m / 1000) * c)) - (s + m * c / 1000)\<bar> \<le> 1 / 10 ^ 12"
    by (simp add: t_def p_def q_def a_def e_def)
  show "0 \<le> fl (s + fl (fl (fl m / 1000) * c))"
    using s t0 by (intro fl_nonneg) (simp add: t_def p_def q_def a_def)
qed


lemma signed_real_nonneg: "0 \<le> sint w \<Longrightarrow> 0 \<le> real_of_int (sint w)"
  by (simp only: of_int_0_le_iff)

lemma unat_real_nonneg: "0 \<le> real (unat w)"
  by (simp only: of_nat_0_le_iff)

lemma unat_Count_bound: "real (unat (cnt :: 32 word)) \<le> 2 ^ 32"
proof -
  have "unat cnt < 2 ^ 32" using unsigned_less [of cnt] by simp
  then have "real (unat cnt) < real (2 ^ 32)" by (simp only: of_nat_less_iff)
  then show ?thesis by simp
qed

text \<open>The same for a whole resource unit, with or without CPU.\<close>

lemma addResourceUnit_CPU_err:
  assumes "cpuNonNegative u" and "0 \<le> CPURequested r"
    and "CPURequested r + milliCores u / 1000 \<le> 1001"
  shows "\<bar>CPURequested (addResourceUnit u r) - (CPURequested r + milliCores u / 1000)\<bar>
           \<le> 1 / 10 ^ 12"
    and "0 \<le> CPURequested (addResourceUnit u r)"
proof -
  have eq: "CPURequested (addResourceUnit u r) = CPURequested (addCPU u r)"
    by (simp add: addResourceUnit_def CPURequested_endpointLoop CPURequested_storageLoop
          addMemory_def Let_def split: option.splits)
  show "\<bar>CPURequested (addResourceUnit u r) - (CPURequested r + milliCores u / 1000)\<bar>
           \<le> 1 / 10 ^ 12"
  proof (cases "res_CPU (unit_Resources u)")
    case None
    then show ?thesis by (simp add: eq addCPU_def milliCores_def)
  next
    case (Some cpu)
    have "0 \<le> sint (cpu_Units cpu)"
      using assms(1) Some by (simp add: cpuNonNegative_def)
    then have m: "0 \<le> real_of_int (sint (cpu_Units cpu))"
      by (rule signed_real_nonneg)
    have b: "CPURequested r
               + real_of_int (sint (cpu_Units cpu)) * real (unat (Count u)) / 1000 \<le> 1001"
      using assms(3) Some by (simp add: milliCores_def)
    from cpu_step_err(1) [OF m unat_real_nonneg unat_Count_bound assms(2) b]
    show ?thesis by (simp add: eq addCPU_def milliCores_def Some Let_def)
  qed
  show "0 \<le> CPURequested (addResourceUnit u r)"
  proof (cases "res_CPU (unit_Resources u)")
    case None
    then show ?thesis using assms(2) by (simp add: eq addCPU_def)
  next
    case (Some cpu)
    have "0 \<le> sint (cpu_Units cpu)"
      using assms(1) Some by (simp add: cpuNonNegative_def)
    then have m: "0 \<le> real_of_int (sint (cpu_Units cpu))"
      by (rule signed_real_nonneg)
    have b: "CPURequested r
               + real_of_int (sint (cpu_Units cpu)) * real (unat (Count u)) / 1000 \<le> 1001"
      using assms(3) Some by (simp add: milliCores_def)
    from cpu_step_err(2) [OF m unat_real_nonneg unat_Count_bound assms(2) b]
    show ?thesis by (simp add: eq addCPU_def Some Let_def)
  qed
qed

lemma milliCores_nonneg:
  assumes "cpuNonNegative u"
  shows "0 \<le> milliCores u"
proof (cases "res_CPU (unit_Resources u)")
  case None
  then show ?thesis by (simp add: milliCores_def)
next
  case (Some cpu)
  have "0 \<le> sint (cpu_Units cpu)"
    using assms Some by (simp add: cpuNonNegative_def)
  then have "0 \<le> real_of_int (sint (cpu_Units cpu))"
    by (rule signed_real_nonneg)
  then have "0 \<le> real_of_int (sint (cpu_Units cpu)) * real (unat (Count u))"
    by (rule mult_nonneg_nonneg) (rule unat_real_nonneg)
  then show ?thesis by (simp add: milliCores_def Some)
qed

lemma sum_milliCores_nonneg:
  "list_all cpuNonNegative us \<Longrightarrow> 0 \<le> sum_list (map milliCores us)"
  by (induction us) (simp_all add: milliCores_nonneg)

text \<open>
  The loop over the units: after \<open>k\<close> units the running total may exceed the exact
  one by \<open>k\<close> times \<open>1e-12\<close>, which stays below 1001 for up to 1000 units.
\<close>

lemma resourceLoop_CPU_err:
  assumes "list_all cpuNonNegative us" and "0 \<le> CPURequested r"
    and "CPURequested r + sum_list (map milliCores us) / 1000 \<le> 1000 + real k / 10 ^ 12"
    and "k + length us \<le> 1000"
  shows "\<bar>CPURequested (resourceLoop us r)
            - (CPURequested r + sum_list (map milliCores us) / 1000)\<bar>
           \<le> real (length us) / 10 ^ 12"
  using assms
proof (induction us arbitrary: r k)
  case Nil
  then show ?case by simp
next
  case (Cons u us)
  define s where "s = CPURequested r"
  define e where "e = milliCores u / 1000"
  define E where "E = sum_list (map milliCores us) / 1000"
  define s' where "s' = CPURequested (addResourceUnit u r)"
  define R where "R = CPURequested (resourceLoop us (addResourceUnit u r))"
  have nn: "cpuNonNegative u" "list_all cpuNonNegative us" using Cons.prems(1) by simp_all
  have e0: "0 \<le> e" using milliCores_nonneg [OF nn(1)] by (simp add: e_def)
  have E0: "0 \<le> E" using sum_milliCores_nonneg [OF nn(2)] by (simp add: E_def)
  have s0: "0 \<le> s" using Cons.prems(2) by (simp add: s_def)
  have k: "real k \<le> 999" using Cons.prems(4) by simp
  have tot: "s + (e + E) \<le> 1000 + real k / 10 ^ 12"
    using Cons.prems(3) by (simp add: s_def e_def E_def add_divide_distrib)
  have se: "s + e \<le> 1001" using tot E0 k by simp
  have step: "\<bar>s' - (s + e)\<bar> \<le> 1 / 10 ^ 12" and s'0: "0 \<le> s'"
    using addResourceUnit_CPU_err [OF nn(1) Cons.prems(2)] se
    by (simp_all add: s_def e_def s'_def)
  have step_hi: "s' - (s + e) \<le> 1 / 10 ^ 12"
    using step by (rule abs_le_D1)
  have step_lo: "- (s' - (s + e)) \<le> 1 / 10 ^ 12"
    using step by (rule abs_le_D2)
  have next_bound: "s' + E \<le> 1000 + real (Suc k) / 10 ^ 12"
    using step_hi tot by (simp add: add_divide_distrib)
  have next_len: "Suc k + length us \<le> 1000" using Cons.prems(4) by simp
  have IH: "\<bar>R - (s' + E)\<bar> \<le> real (length us) / 10 ^ 12"
    using Cons.IH [OF nn(2), of "addResourceUnit u r" "Suc k"] s'0 next_bound next_len
    by (simp add: s'_def E_def R_def)
  have IH_hi: "R - (s' + E) \<le> real (length us) / 10 ^ 12"
    using IH by (rule abs_le_D1)
  have IH_lo: "- (R - (s' + E)) \<le> real (length us) / 10 ^ 12"
    using IH by (rule abs_le_D2)
  have hi: "R - (s + (e + E)) \<le> real (length (u # us)) / 10 ^ 12"
    using IH_hi step_hi by (simp add: add_divide_distrib)
  have lo: "- (R - (s + (e + E))) \<le> real (length (u # us)) / 10 ^ 12"
    using IH_lo step_lo by (simp add: add_divide_distrib)
  have "\<bar>R - (s + (e + E))\<bar> \<le> real (length (u # us)) / 10 ^ 12"
    using hi lo by (rule abs_leI)
  then show ?case
    by (simp add: R_def s_def e_def E_def add_divide_distrib)
qed

text \<open>
  Claim C8, as the code has it. For a resource request with at most 1000 resource
  units, whose CPU quantities are not negative and whose exact CPU total, the sum of
  milli-cores times repetition count over 1000, is at most 1000 cores, the total that
  \<^verbatim>\<open>CalculateRequestedResources\<close> computes in \<^verbatim>\<open>float64\<close> is within \<open>1e-9\<close> of the exact
  total.
\<close>

theorem CPURequested_tolerance:
  assumes "length (group_Resources gSpec) \<le> 1000"
    and "list_all cpuNonNegative (group_Resources gSpec)"
    and "exactCPU gSpec \<le> 1000"
  shows "\<bar>CPURequested (CalculateRequestedResources gSpec) - exactCPU gSpec\<bar> \<le> 1 / 10 ^ 9"
proof -
  have z: "CPURequested zeroResourceRequests = 0"
    by (simp add: zeroResourceRequests_def)
  have "\<bar>CPURequested (resourceLoop (group_Resources gSpec) zeroResourceRequests)
          - (CPURequested zeroResourceRequests
               + sum_list (map milliCores (group_Resources gSpec)) / 1000)\<bar>
          \<le> real (length (group_Resources gSpec)) / 10 ^ 12"
    using assms by (intro resourceLoop_CPU_err [where k = 0]) (simp_all add: z exactCPU_def)
  moreover have "real (length (group_Resources gSpec)) / 10 ^ 12 \<le> 1 / 10 ^ 9"
    using assms(1) by simp
  ultimately show ?thesis
    by (simp add: CalculateRequestedResources_def exactCPU_def z)
qed

text \<open>
  The theorem at a request of two units, 100 milli-cores once and 2500 milli-cores
  three times: the exact total is 7.6 cores.
\<close>

theorem CPURequested_tolerance_witness:
  "length [cpuUnit 100 1, cpuUnit 2500 3] \<le> 1000 \<and>
   list_all cpuNonNegative [cpuUnit 100 1, cpuUnit 2500 3] \<and>
   exactCPU \<lparr>group_Resources = [cpuUnit 100 1, cpuUnit 2500 3]\<rparr> = 76 / 10 \<and>
   \<bar>CPURequested (CalculateRequestedResources \<lparr>group_Resources = [cpuUnit 100 1, cpuUnit 2500 3]\<rparr>)
      - 76 / 10\<bar> \<le> 1 / 10 ^ 9"
proof -
  have h2: "list_all cpuNonNegative [cpuUnit 100 1, cpuUnit 2500 3]"
    by (simp add: cpuNonNegative_def cpuUnit_def)
  have h3: "exactCPU \<lparr>group_Resources = [cpuUnit 100 1, cpuUnit 2500 3]\<rparr> = 76 / 10"
    by (simp add: exactCPU_def milliCores_def cpuUnit_def)
  from CPURequested_tolerance [of "\<lparr>group_Resources = [cpuUnit 100 1, cpuUnit 2500 3]\<rparr>"] h2 h3
  show ?thesis by simp
qed

text \<open>
  Claim C8 as stated fails for a large request: one unit of 100000000100 milli-cores,
  once. The exact total is 100000000.1 cores; the division by 1000 is rounded to the
  nearest \<^verbatim>\<open>float64\<close>, 6710886406710886 / 2 ^ 26, which the product with 1 and the sum
  with 0 leave as it is, and which is more than \<open>5e-9\<close> below the exact total.
\<close>

theorem CPURequested_tolerance_counterexample:
  "CPURequested (CalculateRequestedResources \<lparr>group_Resources = [cpuUnit 100000000100 1]\<rparr>)
     = 6710886406710886 / 2 ^ 26 \<and>
   exactCPU \<lparr>group_Resources = [cpuUnit 100000000100 1]\<rparr> = 1000000001 / 10 \<and>
   \<not> \<bar>CPURequested (CalculateRequestedResources \<lparr>group_Resources = [cpuUnit 100000000100 1]\<rparr>)
        - exactCPU \<lparr>group_Resources = [cpuUnit 100000000100 1]\<rparr>\<bar> \<le> 1 / 10 ^ 9"
proof -
  have c: "CPURequested (CalculateRequestedResources \<lparr>group_Resources = [cpuUnit 100000000100 1]\<rparr>)
             = 6710886406710886 / 2 ^ 26"
    by (simp add: CalculateRequestedResources_def addResourceUnit_def addCPU_def addMemory_def
          cpuUnit_def zeroResourceRequests_def fl_100000000100 fl_100000000_1
          fl_grid_100000000_1 del: power_numeral)
  have e: "exactCPU \<lparr>group_Resources = [cpuUnit 100000000100 1]\<rparr> = 1000000001 / 10"
    by (simp add: exactCPU_def milliCores_def cpuUnit_def)
  show ?thesis
    unfolding c e by simp
qed

section \<open>HandleDenomLogic\<close>



text \<open>Any other denomination is rejected by \<^verbatim>\<open>HandleDenomLogic\<close>, whatever the rates.\<close>

lemma HandleDenomLogic_unsupported:
  "denom \<noteq> ''uakt'' \<Longrightarrow> denom \<noteq> usdcDenom1 \<Longrightarrow> denom \<noteq> usdcDenom2 \<Longrightarrow>
   HandleDenomLogic l denom ratePerBlockUakt ratePerBlockUsd precision amount
     = Inl (DenomNotSupported denom)"
  by (simp add: HandleDenomLogic_def)


section \<open>RequestToBidPrice\<close>

lemma SpecialPricing_iff:
  "SpecialPricing owner \<longleftrightarrow>
     owner = ''akash1fxa9ss3dg6nqyz8aluyaa6svypgprk5tw9fa4q'' \<or>
     owner = ''akash1fhe3uk7d95vvr69pna7cxmwa8777as46uyxcz8''"
  by (simp add: SpecialPricing_def specialAccounts_def)

text \<open>
  Claim C9. For a request whose owner is one of the two special accounts,
  \<^verbatim>\<open>RequestToBidPrice\<close> returns no error, whatever the library, the world and the rest of
  the request are. It prints the request and the special rate \<^verbatim>\<open>1.00\<close> and does nothing
  else: no HTTP request is made, no file is written, nothing of the whitelist check,
  the price feed, the validation of the price or the pricing of the resources is run.
\<close>

theorem RequestToBidPrice_special:
  assumes "Owner request = ''akash1fxa9ss3dg6nqyz8aluyaa6svypgprk5tw9fa4q'' \<or>
           Owner request = ''akash1fhe3uk7d95vvr69pna7cxmwa8777as46uyxcz8''"
  shows "RequestToBidPrice l w request =
           (None, w\<lparr>stdout := stdout w @ [RequestDump, SpecialRate ''1.00'']\<rparr>)"
proof -
  have sp: "SpecialPricing (Owner request)"
    using assms by (simp add: SpecialPricing_iff)
  have ne: "Owner request \<noteq> []"
    using assms by auto
  show ?thesis
    using sp ne by (simp add: RequestToBidPrice_def Let_def println_def split: prod.splits)
qed

text \<open>
  The theorem in a world without cache where both price sources are unreachable, for a
  request in the unsupported denomination \<^verbatim>\<open>foo\<close>.
\<close>

theorem RequestToBidPrice_special_witness:
  "RequestToBidPrice exampleLib emptyWorld
     (exampleRequest ''akash1fhe3uk7d95vvr69pna7cxmwa8777as46uyxcz8'' ''foo'')
   = (None, emptyWorld\<lparr>stdout := [RequestDump, SpecialRate ''1.00'']\<rparr>)"
  using RequestToBidPrice_special [of "exampleRequest ''akash1fhe3uk7d95vvr69pna7cxmwa8777as46uyxcz8'' ''foo''"
          exampleLib emptyWorld]
  by (simp add: exampleRequest_def emptyWorld_def)

text \<open>The same request of another owner fails there, both sources having been tried.\<close>

lemma RequestToBidPrice_ordinary_offline:
  "RequestToBidPrice exampleLib emptyWorld (exampleRequest ordinaryOwner ''foo'')
   = (Some (ErrorGettingAKTPrice HttpGetError),
      emptyWorld\<lparr>requests := [primaryURL, fallbackURL], stdout := [RequestDump, PrimaryFailed]\<rparr>)"
  by (simp add: RequestToBidPrice_def exampleRequest_def println_def requestPrice_def exampleUnit_def
        SpecialPricing_def specialAccounts_def CheckWhitelist_def Getenv_def Trim_def emptyWorld_def
        GetAKTPrice_def readCachedPrice_def fetchPriceFromAPI_def fetchPriceFromURL_def httpGet_def
        ordinaryOwner_def)

text \<open>
  Claim C2 fails on the code. \<^verbatim>\<open>RequestToBidPrice\<close> never calls \<^verbatim>\<open>HandleDenomLogic\<close> and
  never looks at the denomination beyond testing that it is not empty. For an ordinary
  owner, no whitelist configured, a price cache five minutes old and a request priced in
  the unsupported denomination \<^verbatim>\<open>foo\<close>, it returns no error and prints the priced
  output.
\<close>

theorem RequestToBidPrice_unsupported_denom_accepted:
  "RequestToBidPrice exampleLib (cachedWorld (5 * Minute)) (exampleRequest ordinaryOwner ''foo'')
   = (None, (cachedWorld (5 * Minute))\<lparr>stdout := [RequestDump, TotalPerBlock ''#uakt'', TotalUSD ''#'']\<rparr>)"
  by (simp add: RequestToBidPrice_def exampleRequest_def println_def requestPrice_def exampleUnit_def
        SpecialPricing_def specialAccounts_def CheckWhitelist_def Getenv_def Trim_def cachedWorld_def
        emptyWorld_def GetAKTPrice_def readCachedPrice_def exampleLib_def exampleParseFloat_def
        Minute_def priceRequest_def SetPriceTargets_def ParseGPUPriceMappings_def
        CalculateBlockRates_def ordinaryOwner_def)

text \<open>
  More generally the denomination has no influence on the outcome once it is not
  empty: the pricing reads no price of a unit, so two requests that differ only in the
  non-empty denomination of their first unit get the same result.
\<close>

lemma addResourceUnit_Price: "addResourceUnit (u\<lparr>Price := p\<rparr>) r = addResourceUnit u r"
  by (simp add: addResourceUnit_def addCPU_def addMemory_def Let_def split: option.splits)

lemma gpuPriceLoop_Price:
  "gpuPriceLoop (u\<lparr>Price := p\<rparr> # us) m mx t = gpuPriceLoop (u # us) m mx t"
  by (simp split: option.splits)

lemma CalculateTotalGPUPrice_Price:
  assumes "group_Resources gSpec = u # us"
  shows "CalculateTotalGPUPrice (gSpec\<lparr>group_Resources := u\<lparr>Price := p\<rparr> # us\<rparr>) m mx
           = CalculateTotalGPUPrice gSpec m mx"
  unfolding CalculateTotalGPUPrice_def using assms gpuPriceLoop_Price [where u = u and p = p and us = us] by simp

lemma CalculateRequestedResources_Price:
  assumes "group_Resources gSpec = u # us"
  shows "CalculateRequestedResources (gSpec\<lparr>group_Resources := u\<lparr>Price := p\<rparr> # us\<rparr>)
           = CalculateRequestedResources gSpec"
  unfolding CalculateRequestedResources_def using assms by (simp add: addResourceUnit_Price)

lemma priceRequest_Price:
  assumes "group_Resources gSpec = u # us"
  shows "priceRequest l w (gSpec\<lparr>group_Resources := u\<lparr>Price := p\<rparr> # us\<rparr>) usdPerAkt precision
           = priceRequest l w gSpec usdPerAkt precision"
  unfolding priceRequest_def
  by (simp only: CalculateTotalGPUPrice_Price [OF assms] CalculateRequestedResources_Price [OF assms])

lemma requestPrice_withDenom:
  "requestPrice (withDenom denom request) =
     (case requestPrice request of (d, amount) \<Rightarrow>
        (if (case GSpec request of None \<Rightarrow> True | Some gSpec \<Rightarrow> group_Resources gSpec = [])
         then [] else denom, amount))"
  by (simp add: requestPrice_def withDenom_def split: option.splits list.splits)

lemma RequestToBidPrice_denom_irrelevant:
  assumes "denom1 \<noteq> []" and "denom2 \<noteq> []"
  shows "RequestToBidPrice l w (withDenom denom1 request)
           = RequestToBidPrice l w (withDenom denom2 request)"
proof (cases "GSpec request")
  case None
  then show ?thesis by (simp add: withDenom_def)
next
  case (Some gSpec)
  show ?thesis
  proof (cases "group_Resources gSpec")
    case Nil
    with Some show ?thesis by (simp add: withDenom_def)
  next
    case (Cons u us)
    show ?thesis
      using assms Some Cons
      by (simp add: RequestToBidPrice_def withDenom_def requestPrice_def Let_def
            priceRequest_Price [OF Cons] split: prod.splits option.splits sum.splits)
  qed
qed

section \<open>The price feed\<close>

lemma urls_neq: "primaryURL \<noteq> fallbackURL"
  by (simp add: primaryURL_def fallbackURL_def)

text \<open>
  What \<^verbatim>\<open>fetchPriceFromAPI\<close> does with the primary source. When the request fails or the
  body is not JSON, the fallback source is asked. When the body decodes, whatever it
  holds, the result is a success with the value of \<^verbatim>\<open>extractPrice\<close>, and the fallback
  source is not asked.
\<close>

lemma fetchPriceFromAPI_primary_fails:
  assumes "http w primaryURL = GetFailed \<or>
           (http w primaryURL = Response status body \<and> Decode l body = None)"
  shows "fetchPriceFromAPI l w =
           fetchPriceFromURL l (println PrimaryFailed (w\<lparr>requests := requests w @ [primaryURL]\<rparr>))
             fallbackURL"
proof -
  from assms obtain err where
    "fetchPriceFromURL l w primaryURL = (Inl err, w\<lparr>requests := requests w @ [primaryURL]\<rparr>)"
    by (auto simp: fetchPriceFromURL_def httpGet_def)
  then show ?thesis
    by (simp add: fetchPriceFromAPI_def)
qed

lemma fetchPriceFromAPI_primary_decoded:
  assumes "http w primaryURL = Response status body" and "Decode l body = Some data"
  shows "fetchPriceFromAPI l w =
           (Inr (extractPrice data), w\<lparr>requests := requests w @ [primaryURL]\<rparr>)"
  using assms by (simp add: fetchPriceFromAPI_def fetchPriceFromURL_def httpGet_def)

lemma extractPrice_no_field:
  "map_of (rev v) ''price'' = None \<Longrightarrow> map_of (rev v) ''akash-network'' = None \<Longrightarrow>
   extractPrice (JObject v) = 0"
  by (simp add: extractPrice_def extractNested_def field_def)

text \<open>
  Claim C3 fails on the code. The primary source answers with the JSON object
  \<^verbatim>\<open>{"message": "not found"}\<close>, which has no price field, and the fallback source
  would answer with a price of 2.5. \<^verbatim>\<open>fetchPriceFromAPI\<close> returns the rate 0 with no
  error, having asked the primary source only; \<^verbatim>\<open>GetAKTPrice\<close> returns that rate 0 as a
  success and writes it to the cache.
\<close>

theorem fetchPriceFromAPI_missing_field_is_zero:
  "fetchPriceFromAPI exampleLib primaryLacksPrice
     = (Inr 0, primaryLacksPrice\<lparr>requests := [primaryURL]\<rparr>) \<and>
   GetAKTPrice exampleLib primaryLacksPrice
     = (Inr 0, primaryLacksPrice\<lparr>requests := [primaryURL],
                 files := (files primaryLacksPrice)(cacheFile := File 0 (Some ''#''))\<rparr>)"
proof -
  have f: "fetchPriceFromAPI exampleLib primaryLacksPrice
             = (Inr 0, primaryLacksPrice\<lparr>requests := [primaryURL]\<rparr>)"
    by (simp add: fetchPriceFromAPI_def fetchPriceFromURL_def httpGet_def primaryLacksPrice_def
          emptyWorld_def exampleLib_def exampleDecode_def extractPrice_def extractNested_def
          field_def urls_neq)
  have r: "readCachedPrice exampleLib primaryLacksPrice cacheFile = Inl CacheMissingOrExpired"
    by (simp add: readCachedPrice_def primaryLacksPrice_def emptyWorld_def)
  have g: "GetAKTPrice exampleLib primaryLacksPrice
     = (Inr 0, primaryLacksPrice\<lparr>requests := [primaryURL],
                 files := (files primaryLacksPrice)(cacheFile := File 0 (Some ''#''))\<rparr>)"
    by (simp add: GetAKTPrice_def r f cachePrice_def WriteFile_def)
       (simp add: primaryLacksPrice_def emptyWorld_def exampleLib_def)
  from f g show ?thesis by simp
qed

subsection \<open>The freshness window of the cache\<close>

lemma requests_fetchPriceFromAPI:
  "take (Suc (length (requests w))) (requests (snd (fetchPriceFromAPI l w)))
     = requests w @ [primaryURL]"
  by (simp add: fetchPriceFromAPI_def fetchPriceFromURL_def httpGet_def println_def
           split: http_result.splits option.splits)

lemma GetAKTPrice_fresh:
  assumes "files w cacheFile = File age (Some bytes)" and "age \<le> 60 * Minute"
    and "ParseFloat l bytes = Some price"
  shows "GetAKTPrice l w = (Inr price, w)"
  using assms by (simp add: GetAKTPrice_def readCachedPrice_def)

lemma readCachedPrice_absent:
  assumes "files w cacheFile = NotExist \<or>
           (files w cacheFile = File age content \<and> age > 60 * Minute)"
  shows "readCachedPrice l w cacheFile = Inl CacheMissingOrExpired"
  using assms by (auto simp: readCachedPrice_def)

lemma GetAKTPrice_absent:
  assumes "files w cacheFile = NotExist \<or>
           (files w cacheFile = File age content \<and> age > 60 * Minute)"
  shows "GetAKTPrice l w =
           (case fetchPriceFromAPI l w of
              (Inl err, w1) \<Rightarrow> (Inl err, w1)
            | (Inr price, w1) \<Rightarrow>
                (case cachePrice l w1 cacheFile price of
                   (Some err, w2) \<Rightarrow> (Inl err, w2)
                 | (None, w2) \<Rightarrow> (Inr price, w2)))"
  by (simp add: GetAKTPrice_def readCachedPrice_absent [OF assms])

lemma unwritable_fetchPriceFromAPI:
  "unwritable (snd (fetchPriceFromAPI l w)) = unwritable w"
  by (simp add: fetchPriceFromAPI_def fetchPriceFromURL_def httpGet_def println_def
           split: http_result.splits option.splits)

text \<open>
  Claim C6, as the code has it. The cache is valid while its age is at most 60 minutes.
  When the cache file exists, its age is not greater than 60 minutes and its content
  parses as a float, \<^verbatim>\<open>GetAKTPrice\<close> returns the cached value and leaves the world as
  it is: no request is made (first conjunct). When the file does not exist or its age
  is greater than 60 minutes, the primary source is requested next; if the fetch from
  the sources succeeds with a rate and the cache file can be written, \<^verbatim>\<open>GetAKTPrice\<close>
  returns that rate and the cache file holds it, just written, the world being
  otherwise as the fetch left it; if the fetch fails, \<^verbatim>\<open>GetAKTPrice\<close> fails with the
  error of the fetch (second conjunct).
\<close>

theorem GetAKTPrice_cache_window:
  "(files w cacheFile = File age (Some bytes) \<and> age \<le> 60 * Minute \<and>
    ParseFloat l bytes = Some cached
      \<longrightarrow> GetAKTPrice l w = (Inr cached, w)) \<and>
   (files w cacheFile = NotExist \<or> (files w cacheFile = File age content \<and> age > 60 * Minute)
      \<longrightarrow> take (Suc (length (requests w))) (requests (snd (GetAKTPrice l w)))
            = requests w @ [primaryURL] \<and>
          (fetchPriceFromAPI l w = (Inr fetched, w1) \<and> \<not> unwritable w cacheFile \<longrightarrow>
             GetAKTPrice l w
               = (Inr fetched,
                  w1\<lparr>files := (files w1)
                         (cacheFile := File 0 (Some (FormatFloat l 6 (Finite fetched))))\<rparr>)) \<and>
          (fetchPriceFromAPI l w = (Inl err, w1) \<longrightarrow> GetAKTPrice l w = (Inl err, w1)))"
proof (intro conjI impI)
  assume "files w cacheFile = File age (Some bytes) \<and> age \<le> 60 * Minute \<and>
          ParseFloat l bytes = Some cached"
  then show "GetAKTPrice l w = (Inr cached, w)"
    using GetAKTPrice_fresh by blast
next
  assume a: "files w cacheFile = NotExist \<or>
             (files w cacheFile = File age content \<and> age > 60 * Minute)"
  obtain r w' where f: "fetchPriceFromAPI l w = (r, w')"
    by (cases "fetchPriceFromAPI l w")
  have rq: "take (Suc (length (requests w))) (requests w') = requests w @ [primaryURL]"
    using requests_fetchPriceFromAPI [of w l] f by simp
  show "take (Suc (length (requests w))) (requests (snd (GetAKTPrice l w)))
          = requests w @ [primaryURL]"
    using rq
    by (simp add: GetAKTPrice_absent [OF a] f cachePrice_def WriteFile_def split: sum.splits)
next
  assume a: "files w cacheFile = NotExist \<or>
             (files w cacheFile = File age content \<and> age > 60 * Minute)"
  assume ok: "fetchPriceFromAPI l w = (Inr fetched, w1) \<and> \<not> unwritable w cacheFile"
  then have "unwritable w1 = unwritable w"
    using unwritable_fetchPriceFromAPI [of l w] by simp
  then have "\<not> unwritable w1 cacheFile" using ok by simp
  then show "GetAKTPrice l w
               = (Inr fetched,
                  w1\<lparr>files := (files w1)
                         (cacheFile := File 0 (Some (FormatFloat l 6 (Finite fetched))))\<rparr>)"
    using ok by (simp add: GetAKTPrice_absent [OF a] cachePrice_def WriteFile_def)
next
  assume a: "files w cacheFile = NotExist \<or>
             (files w cacheFile = File age content \<and> age > 60 * Minute)"
  assume "fetchPriceFromAPI l w = (Inl err, w1)"
  then show "GetAKTPrice l w = (Inl err, w1)"
    by (simp add: GetAKTPrice_absent [OF a])
qed

text \<open>
  The theorem at a cache 59 minutes old, which is returned with no request, and at a
  cache 61 minutes old with the primary source answering 2.5: the source is requested,
  the result is 2.5 and the cache is rewritten.
\<close>

theorem GetAKTPrice_cache_window_witness:
  "GetAKTPrice exampleLib (cachedWorld (59 * Minute)) = (Inr 2.5, cachedWorld (59 * Minute)) \<and>
   requests (cachedWorld (59 * Minute)) = [] \<and>
   GetAKTPrice exampleLib staleWorld
     = (Inr 2.5, staleWorld\<lparr>requests := [primaryURL],
                    files := (files staleWorld)(cacheFile := File 0 (Some ''#''))\<rparr>)"
proof -
  have fresh: "files (cachedWorld (59 * Minute)) cacheFile = File (59 * Minute) (Some ''2.50'') \<and>
               59 * Minute \<le> 60 * Minute \<and> ParseFloat exampleLib ''2.50'' = Some 2.5"
    by (simp add: cachedWorld_def emptyWorld_def Minute_def exampleLib_def exampleParseFloat_def)
  have stale: "files staleWorld cacheFile = NotExist \<or>
               (files staleWorld cacheFile = File (61 * Minute) (Some ''2.50'') \<and>
                61 * Minute > 60 * Minute)"
    by (simp add: staleWorld_def cachedWorld_def emptyWorld_def Minute_def)
  have fetched: "fetchPriceFromAPI exampleLib staleWorld
                   = (Inr 2.5, staleWorld\<lparr>requests := [primaryURL]\<rparr>) \<and>
                 \<not> unwritable staleWorld cacheFile"
    by (simp add: fetchPriceFromAPI_def fetchPriceFromURL_def httpGet_def staleWorld_def
          cachedWorld_def emptyWorld_def exampleLib_def exampleDecode_def extractPrice_def
          field_def)
  have req0: "requests (cachedWorld (59 * Minute)) = []"
    by (simp add: cachedWorld_def emptyWorld_def)
  from GetAKTPrice_cache_window [where w = "cachedWorld (59 * Minute)" and age = "59 * Minute"
         and bytes = "''2.50''" and l = exampleLib and cached = "2.5"] fresh
  have c1: "GetAKTPrice exampleLib (cachedWorld (59 * Minute)) = (Inr 2.5, cachedWorld (59 * Minute))"
    by blast
  from GetAKTPrice_cache_window [where w = staleWorld and age = "61 * Minute"
         and content = "Some ''2.50''" and l = exampleLib and fetched = "2.5"
         and ?w1.0 = "staleWorld\<lparr>requests := [primaryURL]\<rparr>"] stale fetched
  have c2: "GetAKTPrice exampleLib staleWorld
              = (Inr 2.5,
                 staleWorld\<lparr>requests := [primaryURL]\<rparr>
                   \<lparr>files := (files (staleWorld\<lparr>requests := [primaryURL]\<rparr>))
                      (cacheFile := File 0 (Some (FormatFloat exampleLib 6 (Finite 2.5))))\<rparr>)"
    by blast
  have fmt: "FormatFloat exampleLib 6 (Finite 2.5) = ''#''"
    by (simp add: exampleLib_def)
  show ?thesis
    using c1 req0 c2 fmt by simp
qed

text \<open>
  Claim C6 as stated fails at the boundary: a cache exactly 60 minutes old is not
  treated as absent. Its value is returned and no source is requested.
\<close>

theorem GetAKTPrice_sixty_minutes_counterexample:
  "GetAKTPrice exampleLib (cachedWorld (60 * Minute)) = (Inr 2.5, cachedWorld (60 * Minute)) \<and>
   requests (cachedWorld (60 * Minute)) = []"
  by (simp add: GetAKTPrice_def readCachedPrice_def cachedWorld_def emptyWorld_def exampleLib_def
        exampleParseFloat_def)


section \<open>CalculateBlockRates at a rate of zero\<close>

lemma fl_BlocksPerMonth: "fl BlocksPerMonth = 461611878879909 / 2 ^ 30"
  unfolding BlocksPerMonth_def AverageBlockTimeSeconds_def DaysPerMonth_def
  by (subst fl_binade [where k = 18]) (simp_all add: roundHalfEven_def)

text \<open>
  With an exchange rate of zero, such as \<^verbatim>\<open>GetAKTPrice\<close> returns for a response without
  price field, the rate per block in uakt is an infinity, or NaN for a cost of zero,
  and it is printed as such.
\<close>

lemma CalculateBlockRates_zero_rate:
  "CalculateBlockRates l totalCostUsdTarget 0 precision =
     (let rate = (if totalCostUsdTarget = 0 then NaN
                  else if totalCostUsdTarget > 0 then PosInf else NegInf)
      in (rate, fdiv (Finite totalCostUsdTarget) (fl BlocksPerMonth),
          FormatFloat l 16 rate @ ''uakt''))"
proof -
  have b: "0 < fl BlocksPerMonth" by (simp add: fl_BlocksPerMonth)
  show ?thesis using b
    by (simp add: CalculateBlockRates_def fdiv_def fmul_def Let_def)
qed

section \<open>TrimSpace\<close>

text \<open>
  A no-break space (C2 A0) at the front and a carriage return and a line separator
  (E2 80 A8) at the end are removed, the space inside stays; a lone byte A0 is not a
  character and stops the trimming.
\<close>

lemma TrimSpace_examples:
  "TrimSpace [CHR 0xC2, CHR 0xA0, CHR ''a'', CHR '' '', CHR ''b'', CHR 0x0D,
              CHR 0xE2, CHR 0x80, CHR 0xA8] = ''a b''"
  "TrimSpace [CHR 0x20, CHR 0xA0, CHR ''a''] = [CHR 0xA0, CHR ''a'']"
  "TrimSpace ''  '' = []"
  by (simp_all add: TrimSpace_def dropSpaceLeft_def dropSpaceRight_def spaceRunes_def)

end
